theory Spec2Isabelle
  imports Main
begin

section \<open>Data model\<close>

text \<open>
  The repository holds one type checker per chapter of the book it follows; each file
  declares its own \<open>Term\<close> and \<open>Type\<close>. Two shapes of \<open>Type\<close> occur in the files
  the properties below are about:
  \<^item> the four-tag type of the recursive-function and the subtyping checkers
    (\<open>Boolean\<close>, \<open>Number\<close>, \<open>Func\<close>, \<open>Object\<close>), here \<open>ty\<close>;
  \<^item> the six-tag type of the recursive-types checker (\<open>ch.8-rec.ts\<close>), which adds
    \<open>Rec\<close> and \<open>TypeVar\<close>, here \<open>rty\<close>.

  A \<open>Param\<close> (\<open>{name, type}\<close>) and a \<open>PropertyType\<close> (\<open>{name, type}\<close>) are pairs of a
  name and a type; \<open>params\<close> and \<open>props\<close> are lists of them, in the order of the source
  array. Nothing in the code forbids two entries with the same name.
\<close>

datatype ty =
    Boolean
  | Number
  | Func "(string \<times> ty) list" ty
  | Object "(string \<times> ty) list"

datatype rty =
    RBoolean
  | RNumber
  | RFunc "(string \<times> rty) list" rty
  | RObject "(string \<times> rty) list"
  | Rec string rty
  | TypeVar string

text \<open>
  Terms carry type annotations (parameter types, declared return types), so the term
  type is parametrised by the type of annotations. The payload of a numeric literal and
  the source position \<open>loc\<close> are never read by any checker; the literal is kept as an
  integer and the position is left out.
\<close>

datatype 't tm =
    TmTrue
  | TmFalse
  | TmIf "'t tm" "'t tm" "'t tm"
  | TmNumber int
  | TmAdd "'t tm" "'t tm"
  | TmVar string
  | TmFunc "(string \<times> 't) list" "'t tm"
  | TmCall "'t tm" "'t tm list"
  | TmSeq "'t tm" "'t tm"
  | TmConst string "'t tm" "'t tm"
  | TmObjectNew "(string \<times> 't tm) list"
  | TmObjectGet "'t tm" string
  | TmRecFunc string "(string \<times> 't) list" 't "'t tm" "'t tm"

text \<open>
  What the code can raise: \<open>throw "..."\<close> with a string, the parser library's
  \<open>error(msg, term)\<close> (which throws, carrying the message and the offending term), and
  the runtime's TypeError when a property of \<open>undefined\<close> is read.
\<close>

datatype 't exn =
    Thrown string
  | CheckError string "'t tm"
  | JsTypeError

text \<open>
  Two objects are used as dictionaries. A JavaScript object created by a literal
  inherits the members of \<open>Object.prototype\<close>, so \<open>obj[k]\<close> is \<open>undefined\<close> exactly
  when \<open>k\<close> is neither a key of the object nor one of the inherited names below; for an
  inherited name that is not a key, \<open>obj[k]\<close> is a function (or, for \<open>__proto__\<close>, the
  prototype object), which is not \<open>undefined\<close> and is equal to no string. The names
  are those of the runtime's \<open>Object.prototype\<close> (it is not part of the repository).

  The renaming map of \<open>typeEqNaive\<close> (\<open>Record<string, string>\<close>) is a map from names to
  names together with this rule for names that are not keys. The type environment
  (\<open>Record<string, Type>\<close>) is a map from names to types: what \<open>typecheck\<close> returns
  for a variable that is unbound and named like an inherited member is not a \<open>Type\<close>,
  and is outside the model.
\<close>

definition objectPrototypeKeys :: "string list" where
  "objectPrototypeKeys =
     [''constructor'', ''hasOwnProperty'', ''isPrototypeOf'', ''propertyIsEnumerable'',
      ''toLocaleString'', ''toString'', ''valueOf'', ''__proto__'',
      ''__defineGetter__'', ''__defineSetter__'', ''__lookupGetter__'', ''__lookupSetter__'']"

type_synonym 't TypeEnv = "string \<rightharpoonup> 't"

text \<open>
  The environment of a function body: \<open>newTyEnv = { ...tyEnv }\<close> followed by
  \<open>newTyEnv[name] = type\<close> for each parameter in order, a later assignment
  overwriting an earlier one to the same name.
\<close>

definition bindParams :: "'t TypeEnv \<Rightarrow> (string \<times> 't) list \<Rightarrow> 't TypeEnv" where
  "bindParams tyEnv params = fold (\<lambda>p newTyEnv. newTyEnv(fst p \<mapsto> snd p)) params tyEnv"

section \<open>The recursive-types checker (\<open>ch.8-rec.ts\<close>)\<close>

subsection \<open>\<open>typeEqNaive\<close>\<close>

text \<open>
  \<open>typeEqNaive(ty1, ty2, map)\<close> dispatches on \<open>ty2.tag\<close>. In the \<open>Func\<close> case the loop
  runs over the indices of \<open>ty1.params\<close> and reads \<open>ty2.params[i].type\<close>; the length
  check is commented out in the source, so when \<open>ty2\<close> has fewer parameters the read
  of \<open>.type\<close> on \<open>undefined\<close> raises a TypeError, and when it has more the extra
  parameters of \<open>ty2\<close> are ignored. \<open>typeEqNaive_params\<close> is that loop,
  \<open>typeEqNaive_props\<close> the loop over \<open>ty1.props\<close> of the \<open>Object\<close> case.

  In the \<open>TypeVar\<close> case, \<open>typeof map[ty1.name] === "undefined"\<close> holds when the name
  is neither a key of the map nor inherited from \<open>Object.prototype\<close>; then the function
  throws. For an inherited name that is not a key, \<open>map[ty1.name] === ty2.name\<close>
  compares a function with a string and is false. \<open>{ ...map, [ty1.name]: ty2.name }\<close>
  of the \<open>Rec\<close> case defines a key of the new object whatever the name is.
\<close>

fun typeEqNaive :: "rty \<Rightarrow> rty \<Rightarrow> (string \<rightharpoonup> string) \<Rightarrow> rty exn + bool"
  and typeEqNaive_params ::
    "(string \<times> rty) list \<Rightarrow> (string \<times> rty) list \<Rightarrow> (string \<rightharpoonup> string) \<Rightarrow> rty exn + bool"
  and typeEqNaive_props ::
    "(string \<times> rty) list \<Rightarrow> (string \<times> rty) list \<Rightarrow> (string \<rightharpoonup> string) \<Rightarrow> rty exn + bool"
where
  "typeEqNaive ty1 RBoolean m = Inr (ty1 = RBoolean)"
| "typeEqNaive ty1 RNumber m = Inr (ty1 = RNumber)"
| "typeEqNaive ty1 (RFunc params2 retType2) m =
     (case ty1 of
        RFunc params1 retType1 \<Rightarrow>
          (case typeEqNaive_params params1 params2 m of
             Inl e \<Rightarrow> Inl e
           | Inr False \<Rightarrow> Inr False
           | Inr True \<Rightarrow> typeEqNaive retType1 retType2 m)
      | _ \<Rightarrow> Inr False)"
| "typeEqNaive ty1 (RObject props2) m =
     (case ty1 of
        RObject props1 \<Rightarrow>
          (if length props1 \<noteq> length props2 then Inr False
           else typeEqNaive_props props1 props2 m)
      | _ \<Rightarrow> Inr False)"
| "typeEqNaive ty1 (TypeVar name2) m =
     (case ty1 of
        TypeVar name1 \<Rightarrow>
          (case m name1 of
             Some n \<Rightarrow> Inr (n = name2)
           | None \<Rightarrow>
               if name1 \<in> set objectPrototypeKeys then Inr False
               else Inl (Thrown (''unknown type variable: '' @ name1)))
      | _ \<Rightarrow> Inr False)"
| "typeEqNaive ty1 (Rec name2 type2) m =
     (case ty1 of
        Rec name1 type1 \<Rightarrow> typeEqNaive type1 type2 (m(name1 \<mapsto> name2))
      | _ \<Rightarrow> Inr False)"
| "typeEqNaive_params [] params2 m = Inr True"
| "typeEqNaive_params (p1 # params1) [] m = Inl JsTypeError"
| "typeEqNaive_params (p1 # params1) (p2 # params2) m =
     (case typeEqNaive (snd p1) (snd p2) m of
        Inl e \<Rightarrow> Inl e
      | Inr False \<Rightarrow> Inr False
      | Inr True \<Rightarrow> typeEqNaive_params params1 params2 m)"
| "typeEqNaive_props [] props2 m = Inr True"
| "typeEqNaive_props (prop1 # props1) props2 m =
     (case find (\<lambda>prop2. fst prop1 = fst prop2) props2 of
        None \<Rightarrow> Inr False
      | Some prop2 \<Rightarrow>
          (case typeEqNaive (snd prop1) (snd prop2) m of
             Inl e \<Rightarrow> Inl e
           | Inr False \<Rightarrow> Inr False
           | Inr True \<Rightarrow> typeEqNaive_props props1 props2 m))"

subsection \<open>\<open>expandType\<close> and \<open>simplifyType\<close>\<close>

fun expandType :: "rty \<Rightarrow> string \<Rightarrow> rty \<Rightarrow> rty" where
  "expandType RBoolean tyVarName repTy = RBoolean"
| "expandType RNumber tyVarName repTy = RNumber"
| "expandType (RFunc params retType) tyVarName repTy =
     RFunc (map (\<lambda>p. (fst p, expandType (snd p) tyVarName repTy)) params)
           (expandType retType tyVarName repTy)"
| "expandType (RObject props) tyVarName repTy =
     RObject (map (\<lambda>p. (fst p, expandType (snd p) tyVarName repTy)) props)"
| "expandType (Rec name type) tyVarName repTy =
     (if name = tyVarName then Rec name type
      else Rec name (expandType type tyVarName repTy))"
| "expandType (TypeVar name) tyVarName repTy =
     (if name = tyVarName then repTy else TypeVar name)"

text \<open>
  \<open>simplifyType\<close> calls itself on the unfolding as long as the result is a \<open>Rec\<close>;
  nothing bounds the number of calls (on \<open>Rec X. X\<close> the unfolding is the type itself).
  The first argument is fuel: \<open>None\<close> means the fuel ran out before the function
  returned.
\<close>

fun simplifyType :: "nat \<Rightarrow> rty \<Rightarrow> rty option" where
  "simplifyType 0 ty = None"
| "simplifyType (Suc n) (Rec name type) = simplifyType n (expandType type name (Rec name type))"
| "simplifyType (Suc n) ty = Some ty"

subsection \<open>\<open>typeEqSub\<close> and \<open>typeEq\<close>\<close>

text \<open>
  The loop over \<open>seen\<close> at the head of \<open>typeEqSub\<close>: the first pair such that both
  \<open>typeEqNaive\<close> calls (with a fresh map \<open>{}\<close>) return true makes \<open>typeEqSub\<close> return
  true; \<open>&&\<close> does not evaluate its second operand when the first is false; an
  exception of \<open>typeEqNaive\<close> leaves \<open>typeEqSub\<close>.
\<close>

fun typeEqSub_seen :: "(rty \<times> rty) list \<Rightarrow> rty \<Rightarrow> rty \<Rightarrow> rty exn + bool" where
  "typeEqSub_seen [] ty1 ty2 = Inr False"
| "typeEqSub_seen (s # seen) ty1 ty2 =
     (case typeEqNaive (fst s) ty1 Map.empty of
        Inl e \<Rightarrow> Inl e
      | Inr False \<Rightarrow> typeEqSub_seen seen ty1 ty2
      | Inr True \<Rightarrow>
          (case typeEqNaive (snd s) ty2 Map.empty of
             Inl e \<Rightarrow> Inl e
           | Inr False \<Rightarrow> typeEqSub_seen seen ty1 ty2
           | Inr True \<Rightarrow> Inr True))"

text \<open>
  The two \<open>for\<close> loops of the \<open>Func\<close> and \<open>Object\<close> cases of \<open>typeEqSub\<close>. Their first
  argument \<open>eq\<close> stands for the recursive call \<open>typeEqSub(_, _, seen)\<close> of the loop
  body. A result \<open>None\<close> is a call that did not return.
\<close>

fun typeEqSub_params ::
  "(rty \<Rightarrow> rty \<Rightarrow> (rty exn + bool) option) \<Rightarrow> (string \<times> rty) list \<Rightarrow> (string \<times> rty) list
    \<Rightarrow> (rty exn + bool) option" where
  "typeEqSub_params eq [] params2 = Some (Inr True)"
| "typeEqSub_params eq (p1 # params1) [] = Some (Inl JsTypeError)"
| "typeEqSub_params eq (p1 # params1) (p2 # params2) =
     (case eq (snd p1) (snd p2) of
        None \<Rightarrow> None
      | Some (Inl e) \<Rightarrow> Some (Inl e)
      | Some (Inr False) \<Rightarrow> Some (Inr False)
      | Some (Inr True) \<Rightarrow> typeEqSub_params eq params1 params2)"

fun typeEqSub_props ::
  "(rty \<Rightarrow> rty \<Rightarrow> (rty exn + bool) option) \<Rightarrow> (string \<times> rty) list \<Rightarrow> (string \<times> rty) list
    \<Rightarrow> (rty exn + bool) option" where
  "typeEqSub_props eq props1 [] = Some (Inr True)"
| "typeEqSub_props eq props1 (prop2 # props2) =
     (case find (\<lambda>prop1. fst prop1 = fst prop2) props1 of
        None \<Rightarrow> Some (Inr False)
      | Some prop1 \<Rightarrow>
          (case eq (snd prop1) (snd prop2) of
             None \<Rightarrow> None
           | Some (Inl e) \<Rightarrow> Some (Inl e)
           | Some (Inr False) \<Rightarrow> Some (Inr False)
           | Some (Inr True) \<Rightarrow> typeEqSub_props eq props1 props2))"

text \<open>
  \<open>typeEqSub\<close> need not return (it calls \<open>simplifyType\<close>, and unfolds recursive types
  itself), so it takes fuel: every call of \<open>typeEqSub\<close> from \<open>typeEqSub\<close> uses one
  unit, and \<open>None\<close> means the fuel ran out. The \<open>switch\<close> on \<open>ty2.tag\<close> is reached only
  when neither type is a \<open>Rec\<close>, so its \<open>default\<close> branch is dead.
\<close>

primrec typeEqSub :: "nat \<Rightarrow> rty \<Rightarrow> rty \<Rightarrow> (rty \<times> rty) list \<Rightarrow> (rty exn + bool) option" where
  "typeEqSub 0 ty1 ty2 seen = None"
| "typeEqSub (Suc n) ty1 ty2 seen =
     (case typeEqSub_seen seen ty1 ty2 of
        Inl e \<Rightarrow> Some (Inl e)
      | Inr True \<Rightarrow> Some (Inr True)
      | Inr False \<Rightarrow>
          (case ty1 of
             Rec name1 type1 \<Rightarrow>
               (case simplifyType n ty1 of
                  None \<Rightarrow> None
                | Some ty1' \<Rightarrow> typeEqSub n ty1' ty2 (seen @ [(ty1, ty2)]))
           | _ \<Rightarrow>
               (case ty2 of
                  Rec name2 type2 \<Rightarrow>
                    (case simplifyType n ty2 of
                       None \<Rightarrow> None
                     | Some ty2' \<Rightarrow> typeEqSub n ty1 ty2' (seen @ [(ty1, ty2)]))
                | RBoolean \<Rightarrow> Some (Inr (ty1 = RBoolean))
                | RNumber \<Rightarrow> Some (Inr (ty1 = RNumber))
                | RFunc params2 retType2 \<Rightarrow>
                    (case ty1 of
                       RFunc params1 retType1 \<Rightarrow>
                         (if length params1 \<noteq> length params2 then Some (Inr False)
                          else
                            (case typeEqSub_params (\<lambda>a b. typeEqSub n a b seen) params1 params2 of
                               None \<Rightarrow> None
                             | Some (Inl e) \<Rightarrow> Some (Inl e)
                             | Some (Inr False) \<Rightarrow> Some (Inr False)
                             | Some (Inr True) \<Rightarrow> typeEqSub n retType1 retType2 seen))
                     | _ \<Rightarrow> Some (Inr False))
                | RObject props2 \<Rightarrow>
                    (case ty1 of
                       RObject props1 \<Rightarrow>
                         (if length props1 \<noteq> length props2 then Some (Inr False)
                          else typeEqSub_props (\<lambda>a b. typeEqSub n a b seen) props1 props2)
                     | _ \<Rightarrow> Some (Inr False))
                | TypeVar name2 \<Rightarrow> Some (Inl (Thrown ''unreachable'')))))"

definition typeEq :: "nat \<Rightarrow> rty \<Rightarrow> rty \<Rightarrow> (rty exn + bool) option" where
  "typeEq n ty1 ty2 = typeEqSub n ty1 ty2 []"


subsection \<open>\<open>typecheck\<close> of the recursive-types checker\<close>

text \<open>
  \<open>typecheck\<close> descends the term; it returns whenever the calls of \<open>simplifyType\<close>
  and \<open>typeEq\<close> it makes return. Its first argument is the fuel given to each of
  those calls, and \<open>None\<close> means that one of them ran out of it. The \<open>call\<close> case
  compares by \<open>typeEq(funcTy.params[i].type, argTy)\<close>. \<open>typecheck_args\<close> is the
  \<open>for\<close> loop of the \<open>call\<close> case, \<open>typecheck_props\<close> the \<open>map\<close> of \<open>objectNew\<close>.
\<close>

fun typecheck :: "nat \<Rightarrow> rty tm \<Rightarrow> rty TypeEnv \<Rightarrow> (rty exn + rty) option"
  and typecheck_args ::
    "nat \<Rightarrow> rty tm list \<Rightarrow> (string \<times> rty) list \<Rightarrow> rty TypeEnv \<Rightarrow> (rty exn + unit) option"
  and typecheck_props ::
    "nat \<Rightarrow> (string \<times> rty tm) list \<Rightarrow> rty TypeEnv \<Rightarrow> (rty exn + (string \<times> rty) list) option"
where
  "typecheck k TmTrue tyEnv = Some (Inr RBoolean)"
| "typecheck k TmFalse tyEnv = Some (Inr RBoolean)"
| "typecheck k (TmIf cond thn els) tyEnv =
     (case typecheck k cond tyEnv of
        None \<Rightarrow> None
      | Some (Inl e) \<Rightarrow> Some (Inl e)
      | Some (Inr condTy0) \<Rightarrow>
          (case simplifyType k condTy0 of
             None \<Rightarrow> None
           | Some condTy \<Rightarrow>
               if condTy \<noteq> RBoolean then Some (Inl (CheckError ''boolean expected'' cond))
               else
                 (case typecheck k thn tyEnv of
                    None \<Rightarrow> None
                  | Some (Inl e) \<Rightarrow> Some (Inl e)
                  | Some (Inr thnTy) \<Rightarrow>
                      (case typecheck k els tyEnv of
                         None \<Rightarrow> None
                       | Some (Inl e) \<Rightarrow> Some (Inl e)
                       | Some (Inr elsTy) \<Rightarrow>
                           (case typeEq k thnTy elsTy of
                              None \<Rightarrow> None
                            | Some (Inl e) \<Rightarrow> Some (Inl e)
                            | Some (Inr False) \<Rightarrow>
                                Some (Inl (CheckError ''then and else have different types''
                                  (TmIf cond thn els)))
                            | Some (Inr True) \<Rightarrow> Some (Inr thnTy))))))"
| "typecheck k (TmNumber n) tyEnv = Some (Inr RNumber)"
| "typecheck k (TmAdd left right) tyEnv =
     (case typecheck k left tyEnv of
        None \<Rightarrow> None
      | Some (Inl e) \<Rightarrow> Some (Inl e)
      | Some (Inr leftTy0) \<Rightarrow>
          (case simplifyType k leftTy0 of
             None \<Rightarrow> None
           | Some leftTy \<Rightarrow>
               if leftTy \<noteq> RNumber then Some (Inl (CheckError ''number expected'' left))
               else
                 (case typecheck k right tyEnv of
                    None \<Rightarrow> None
                  | Some (Inl e) \<Rightarrow> Some (Inl e)
                  | Some (Inr rightTy0) \<Rightarrow>
                      (case simplifyType k rightTy0 of
                         None \<Rightarrow> None
                       | Some rightTy \<Rightarrow>
                           if rightTy \<noteq> RNumber
                           then Some (Inl (CheckError ''number expected'' right))
                           else Some (Inr RNumber)))))"
| "typecheck k (TmVar name) tyEnv =
     (case tyEnv name of
        None \<Rightarrow> Some (Inl (CheckError (''unknown variable: '' @ name) (TmVar name)))
      | Some ty \<Rightarrow> Some (Inr ty))"
| "typecheck k (TmFunc params body) tyEnv =
     (case typecheck k body (bindParams tyEnv params) of
        None \<Rightarrow> None
      | Some (Inl e) \<Rightarrow> Some (Inl e)
      | Some (Inr retType) \<Rightarrow> Some (Inr (RFunc params retType)))"
| "typecheck k (TmCall func args) tyEnv =
     (case typecheck k func tyEnv of
        None \<Rightarrow> None
      | Some (Inl e) \<Rightarrow> Some (Inl e)
      | Some (Inr funcTy0) \<Rightarrow>
          (case simplifyType k funcTy0 of
             None \<Rightarrow> None
           | Some funcTy \<Rightarrow>
               (case funcTy of
                  RFunc params retType \<Rightarrow>
                    if length params \<noteq> length args
                    then Some (Inl (CheckError ''wrong number of arguments'' (TmCall func args)))
                    else
                      (case typecheck_args k args params tyEnv of
                         None \<Rightarrow> None
                       | Some (Inl e) \<Rightarrow> Some (Inl e)
                       | Some (Inr u) \<Rightarrow> Some (Inr retType))
                | _ \<Rightarrow> Some (Inl (CheckError ''function type expected'' func)))))"
| "typecheck k (TmSeq body rest) tyEnv =
     (case typecheck k body tyEnv of
        None \<Rightarrow> None
      | Some (Inl e) \<Rightarrow> Some (Inl e)
      | Some (Inr ty) \<Rightarrow> typecheck k rest tyEnv)"
| "typecheck k (TmConst name init rest) tyEnv =
     (case typecheck k init tyEnv of
        None \<Rightarrow> None
      | Some (Inl e) \<Rightarrow> Some (Inl e)
      | Some (Inr ty) \<Rightarrow> typecheck k rest (tyEnv(name \<mapsto> ty)))"
| "typecheck k (TmObjectNew props) tyEnv =
     (case typecheck_props k props tyEnv of
        None \<Rightarrow> None
      | Some (Inl e) \<Rightarrow> Some (Inl e)
      | Some (Inr propTys) \<Rightarrow> Some (Inr (RObject propTys)))"
| "typecheck k (TmObjectGet obj propName) tyEnv =
     (case typecheck k obj tyEnv of
        None \<Rightarrow> None
      | Some (Inl e) \<Rightarrow> Some (Inl e)
      | Some (Inr objectTy0) \<Rightarrow>
          (case simplifyType k objectTy0 of
             None \<Rightarrow> None
           | Some objectTy \<Rightarrow>
               (case objectTy of
                  RObject props \<Rightarrow>
                    (case find (\<lambda>prop. fst prop = propName) props of
                       None \<Rightarrow>
                         Some (Inl (CheckError (''unknown property name: '' @ propName)
                           (TmObjectGet obj propName)))
                     | Some prop \<Rightarrow> Some (Inr (snd prop)))
                | _ \<Rightarrow> Some (Inl (CheckError ''object type expected'' obj)))))"
| "typecheck k (TmRecFunc funcName params retType body rest) tyEnv =
     (case typecheck k body ((bindParams tyEnv params)(funcName \<mapsto> RFunc params retType)) of
        None \<Rightarrow> None
      | Some (Inl e) \<Rightarrow> Some (Inl e)
      | Some (Inr retTy) \<Rightarrow>
          (case typeEq k retType retTy of
             None \<Rightarrow> None
           | Some (Inl e) \<Rightarrow> Some (Inl e)
           | Some (Inr False) \<Rightarrow>
               Some (Inl (CheckError ''wrong return type''
                 (TmRecFunc funcName params retType body rest)))
           | Some (Inr True) \<Rightarrow> typecheck k rest (tyEnv(funcName \<mapsto> RFunc params retType))))"
| "typecheck_args k [] params tyEnv = Some (Inr ())"
| "typecheck_args k (arg # args) params tyEnv =
     (case typecheck k arg tyEnv of
        None \<Rightarrow> None
      | Some (Inl e) \<Rightarrow> Some (Inl e)
      | Some (Inr argTy) \<Rightarrow>
          (case params of
             [] \<Rightarrow> Some (Inl JsTypeError)
           | param # params' \<Rightarrow>
               (case typeEq k (snd param) argTy of
                  None \<Rightarrow> None
                | Some (Inl e) \<Rightarrow> Some (Inl e)
                | Some (Inr False) \<Rightarrow> Some (Inl (CheckError ''parameter type mismatch'' arg))
                | Some (Inr True) \<Rightarrow> typecheck_args k args params' tyEnv)))"
| "typecheck_props k [] tyEnv = Some (Inr [])"
| "typecheck_props k (prop # props) tyEnv =
     (case typecheck k (snd prop) tyEnv of
        None \<Rightarrow> None
      | Some (Inl e) \<Rightarrow> Some (Inl e)
      | Some (Inr ty) \<Rightarrow>
          (case typecheck_props k props tyEnv of
             None \<Rightarrow> None
           | Some (Inl e) \<Rightarrow> Some (Inl e)
           | Some (Inr propTys) \<Rightarrow> Some (Inr ((fst prop, ty) # propTys))))"

section \<open>The subtyping checker (second file of \<open>part_001\<close>)\<close>

subsection \<open>\<open>typeEq\<close> and \<open>subType\<close> on the four-tag type\<close>

text \<open>
  Both functions return a boolean and raise nothing on a value of the four-tag type: the
  \<open>default\<close> branch of \<open>typeEq\<close> and the \<open>throw\<close> after the \<open>switch\<close> of \<open>subType\<close>
  are dead, and the parameter lists are indexed only after their lengths were found
  equal. A \<open>for\<close> loop whose body returns false at the first failing element and
  that ends in \<open>return true\<close> (or in the last check) is written \<open>list_all\<close>, and
  \<open>list_all2\<close> where two arrays of equal length are walked by index.
  \<open>find\<close> is \<open>Array.prototype.find\<close>: the first element with the name.

  \<open>typeEq\<close> of the recursive-function checker (first file of \<open>part_001\<close>) is the same
  text; \<open>typeEq_sub\<close> stands for both.
\<close>

lemma size_snd_member:
  "p \<in> set ps \<Longrightarrow> size (snd p) < Suc (size_list (size_prod (\<lambda>_. 0) size) ps)"
proof (induction ps)
  case Nil
  then show ?case by simp
next
  case (Cons q ps)
  show ?case
  proof (cases "p = q")
    case True
    then show ?thesis by (cases q) simp
  next
    case False
    with Cons have "size (snd p) < Suc (size_list (size_prod (\<lambda>_. 0) size) ps)" by simp
    then show ?thesis by simp
  qed
qed

lemma size_snd_find:
  "find P ps = Some p \<Longrightarrow> size (snd p) < Suc (size_list (size_prod (\<lambda>_. 0) size) ps)"
  by (rule size_snd_member) (auto simp: find_Some_iff)

function typeEq_sub :: "ty \<Rightarrow> ty \<Rightarrow> bool" where
  "typeEq_sub ty1 Boolean = (ty1 = Boolean)"
| "typeEq_sub ty1 Number = (ty1 = Number)"
| "typeEq_sub ty1 (Func params2 retType2) =
     (case ty1 of
        Func params1 retType1 \<Rightarrow>
          length params1 = length params2 \<and>
          list_all2 (\<lambda>p1 p2. typeEq_sub (snd p1) (snd p2)) params1 params2 \<and>
          typeEq_sub retType1 retType2
      | _ \<Rightarrow> False)"
| "typeEq_sub ty1 (Object props2) =
     (case ty1 of
        Object props1 \<Rightarrow>
          length props1 = length props2 \<and>
          list_all (\<lambda>prop2.
            case find (\<lambda>prop1. fst prop1 = fst prop2) props1 of
              None \<Rightarrow> False
            | Some prop1 \<Rightarrow> typeEq_sub (snd prop1) (snd prop2)) props2
      | _ \<Rightarrow> False)"
  by pat_completeness auto
termination
proof (relation "measure (\<lambda>(ty1, ty2). size ty2)", goal_cases)
  case 1
  show ?case by simp
next
  case (2 ty1 params2 retType2 params1 retType1 p1 p2)
  then show ?case using size_snd_member [of p2 params2] by simp
next
  case 3
  then show ?case by simp
next
  case (4 ty1 props2 props1 prop2 prop1)
  then show ?case using size_snd_member [of prop2 props2] by simp
qed

function subType :: "ty \<Rightarrow> ty \<Rightarrow> bool" where
  "subType ty1 Boolean = (ty1 = Boolean)"
| "subType ty1 Number = (ty1 = Number)"
| "subType ty1 (Func params2 retType2) =
     (case ty1 of
        Func params1 retType1 \<Rightarrow>
          length params1 = length params2 \<and>
          list_all2 (\<lambda>p1 p2. subType (snd p2) (snd p1)) params1 params2 \<and>
          subType retType1 retType2
      | _ \<Rightarrow> False)"
| "subType ty1 (Object props2) =
     (case ty1 of
        Object props1 \<Rightarrow>
          list_all (\<lambda>prop2.
            case find (\<lambda>prop1. fst prop1 = fst prop2) props1 of
              None \<Rightarrow> False
            | Some prop1 \<Rightarrow> subType (snd prop1) (snd prop2)) props2
      | _ \<Rightarrow> False)"
  by pat_completeness auto
termination
proof (relation "measure (\<lambda>(ty1, ty2). size ty1 + size ty2)", goal_cases)
  case 1
  show ?case by simp
next
  case (2 ty1 params2 retType2 params1 retType1 p1 p2)
  then show ?case
    using size_snd_member [of p2 params2] size_snd_member [of p1 params1] by simp
next
  case 3
  then show ?case by simp
next
  case (4 ty1 props2 props1 prop2 prop1)
  from 4 have "find (\<lambda>prop1. fst prop1 = fst prop2) props1 = Some prop1" by simp
  then have "size (snd prop1) < Suc (size_list (size_prod (\<lambda>_. 0) size) props1)"
    by (rule size_snd_find)
  moreover from 4 have "size (snd prop2) < Suc (size_list (size_prod (\<lambda>_. 0) size) props2)"
    by (simp add: size_snd_member)
  ultimately show ?case using 4 by simp
qed


subsection \<open>\<open>typecheck\<close> of the subtyping checker\<close>

text \<open>
  \<open>typecheck_sub_args\<close> is the \<open>for\<close> loop of the \<open>call\<close> case, from some index on: the
  remaining arguments and the remaining parameters of the callee. The loop is entered
  only when both arrays have the same length; were the parameters to end first, the
  read of \<open>funcTy.params[i].type\<close> would raise a TypeError after the argument was
  checked. \<open>typecheck_sub_props\<close> is \<open>t.props.map(...)\<close> of the \<open>objectNew\<close> case. The
  \<open>Term\<close> type of this file has no \<open>if\<close>; on such a term the \<open>switch\<close> reaches
  \<open>default: throw "typecheck error"\<close>.
\<close>

fun typecheck_sub :: "ty tm \<Rightarrow> ty TypeEnv \<Rightarrow> ty exn + ty"
  and typecheck_sub_args :: "ty tm list \<Rightarrow> (string \<times> ty) list \<Rightarrow> ty TypeEnv \<Rightarrow> ty exn + unit"
  and typecheck_sub_props :: "(string \<times> ty tm) list \<Rightarrow> ty TypeEnv \<Rightarrow> ty exn + (string \<times> ty) list"
where
  "typecheck_sub TmTrue tyEnv = Inr Boolean"
| "typecheck_sub TmFalse tyEnv = Inr Boolean"
| "typecheck_sub (TmIf cond thn els) tyEnv = Inl (Thrown ''typecheck error'')"
| "typecheck_sub (TmNumber n) tyEnv = Inr Number"
| "typecheck_sub (TmAdd left right) tyEnv =
     (case typecheck_sub left tyEnv of
        Inl e \<Rightarrow> Inl e
      | Inr leftTy \<Rightarrow>
          if leftTy \<noteq> Number then Inl (CheckError ''number expected'' left)
          else
            (case typecheck_sub right tyEnv of
               Inl e \<Rightarrow> Inl e
             | Inr rightTy \<Rightarrow>
                 if rightTy \<noteq> Number then Inl (CheckError ''number expected'' right)
                 else Inr Number))"
| "typecheck_sub (TmVar name) tyEnv =
     (case tyEnv name of
        None \<Rightarrow> Inl (CheckError (''unknown variable: '' @ name) (TmVar name))
      | Some ty \<Rightarrow> Inr ty)"
| "typecheck_sub (TmFunc params body) tyEnv =
     (case typecheck_sub body (bindParams tyEnv params) of
        Inl e \<Rightarrow> Inl e
      | Inr retType \<Rightarrow> Inr (Func params retType))"
| "typecheck_sub (TmCall func args) tyEnv =
     (case typecheck_sub func tyEnv of
        Inl e \<Rightarrow> Inl e
      | Inr funcTy \<Rightarrow>
          (case funcTy of
             Func params retType \<Rightarrow>
               if length params \<noteq> length args
               then Inl (CheckError ''wrong number of arguments'' (TmCall func args))
               else
                 (case typecheck_sub_args args params tyEnv of
                    Inl e \<Rightarrow> Inl e
                  | Inr u \<Rightarrow> Inr retType)
           | _ \<Rightarrow> Inl (CheckError ''function type expected'' func)))"
| "typecheck_sub (TmSeq body rest) tyEnv =
     (case typecheck_sub body tyEnv of
        Inl e \<Rightarrow> Inl e
      | Inr ty \<Rightarrow> typecheck_sub rest tyEnv)"
| "typecheck_sub (TmConst name init rest) tyEnv =
     (case typecheck_sub init tyEnv of
        Inl e \<Rightarrow> Inl e
      | Inr ty \<Rightarrow> typecheck_sub rest (tyEnv(name \<mapsto> ty)))"
| "typecheck_sub (TmObjectNew props) tyEnv =
     (case typecheck_sub_props props tyEnv of
        Inl e \<Rightarrow> Inl e
      | Inr propTys \<Rightarrow> Inr (Object propTys))"
| "typecheck_sub (TmObjectGet obj propName) tyEnv =
     (case typecheck_sub obj tyEnv of
        Inl e \<Rightarrow> Inl e
      | Inr objectTy \<Rightarrow>
          (case objectTy of
             Object props \<Rightarrow>
               (case find (\<lambda>prop. fst prop = propName) props of
                  None \<Rightarrow>
                    Inl (CheckError (''unknown property name: '' @ propName) (TmObjectGet obj propName))
                | Some prop \<Rightarrow> Inr (snd prop))
           | _ \<Rightarrow> Inl (CheckError ''object type expected'' obj)))"
| "typecheck_sub (TmRecFunc funcName params retType body rest) tyEnv =
     (case typecheck_sub body ((bindParams tyEnv params)(funcName \<mapsto> Func params retType)) of
        Inl e \<Rightarrow> Inl e
      | Inr retTy \<Rightarrow>
          if \<not> typeEq_sub retType retTy
          then Inl (CheckError ''wrong return type'' (TmRecFunc funcName params retType body rest))
          else typecheck_sub rest (tyEnv(funcName \<mapsto> Func params retType)))"
| "typecheck_sub_args [] params tyEnv = Inr ()"
| "typecheck_sub_args (arg # args) params tyEnv =
     (case typecheck_sub arg tyEnv of
        Inl e \<Rightarrow> Inl e
      | Inr argTy \<Rightarrow>
          (case params of
             [] \<Rightarrow> Inl JsTypeError
           | param # params' \<Rightarrow>
               if \<not> subType argTy (snd param)
               then Inl (CheckError ''parameter type mismatch'' arg)
               else typecheck_sub_args args params' tyEnv))"
| "typecheck_sub_props [] tyEnv = Inr []"
| "typecheck_sub_props (prop # props) tyEnv =
     (case typecheck_sub (snd prop) tyEnv of
        Inl e \<Rightarrow> Inl e
      | Inr ty \<Rightarrow>
          (case typecheck_sub_props props tyEnv of
             Inl e \<Rightarrow> Inl e
           | Inr propTys \<Rightarrow> Inr ((fst prop, ty) # propTys)))"


section \<open>The recursive-function checker (first file of \<open>part_001\<close>)\<close>

text \<open>
  The same \<open>Type\<close> and \<open>typeEq\<close> as the subtyping checker. \<open>typecheck\<close> has the \<open>if\<close>
  case, and its \<open>call\<close> case compares each declared parameter type with the argument's
  type by \<open>typeEq(funcTy.params[i].type, argTy)\<close>.
\<close>

fun typecheck_recfunc :: "ty tm \<Rightarrow> ty TypeEnv \<Rightarrow> ty exn + ty"
  and typecheck_recfunc_args :: "ty tm list \<Rightarrow> (string \<times> ty) list \<Rightarrow> ty TypeEnv \<Rightarrow> ty exn + unit"
  and typecheck_recfunc_props :: "(string \<times> ty tm) list \<Rightarrow> ty TypeEnv \<Rightarrow> ty exn + (string \<times> ty) list"
where
  "typecheck_recfunc TmTrue tyEnv = Inr Boolean"
| "typecheck_recfunc TmFalse tyEnv = Inr Boolean"
| "typecheck_recfunc (TmIf cond thn els) tyEnv =
     (case typecheck_recfunc cond tyEnv of
        Inl e \<Rightarrow> Inl e
      | Inr condTy \<Rightarrow>
          if condTy \<noteq> Boolean then Inl (CheckError ''boolean expected'' cond)
          else
            (case typecheck_recfunc thn tyEnv of
               Inl e \<Rightarrow> Inl e
             | Inr thnTy \<Rightarrow>
                 (case typecheck_recfunc els tyEnv of
                    Inl e \<Rightarrow> Inl e
                  | Inr elsTy \<Rightarrow>
                      if \<not> typeEq_sub thnTy elsTy
                      then Inl (CheckError ''then and else have different types'' (TmIf cond thn els))
                      else Inr thnTy)))"
| "typecheck_recfunc (TmNumber n) tyEnv = Inr Number"
| "typecheck_recfunc (TmAdd left right) tyEnv =
     (case typecheck_recfunc left tyEnv of
        Inl e \<Rightarrow> Inl e
      | Inr leftTy \<Rightarrow>
          if leftTy \<noteq> Number then Inl (CheckError ''number expected'' left)
          else
            (case typecheck_recfunc right tyEnv of
               Inl e \<Rightarrow> Inl e
             | Inr rightTy \<Rightarrow>
                 if rightTy \<noteq> Number then Inl (CheckError ''number expected'' right)
                 else Inr Number))"
| "typecheck_recfunc (TmVar name) tyEnv =
     (case tyEnv name of
        None \<Rightarrow> Inl (CheckError (''unknown variable: '' @ name) (TmVar name))
      | Some ty \<Rightarrow> Inr ty)"
| "typecheck_recfunc (TmFunc params body) tyEnv =
     (case typecheck_recfunc body (bindParams tyEnv params) of
        Inl e \<Rightarrow> Inl e
      | Inr retType \<Rightarrow> Inr (Func params retType))"
| "typecheck_recfunc (TmCall func args) tyEnv =
     (case typecheck_recfunc func tyEnv of
        Inl e \<Rightarrow> Inl e
      | Inr funcTy \<Rightarrow>
          (case funcTy of
             Func params retType \<Rightarrow>
               if length params \<noteq> length args
               then Inl (CheckError ''wrong number of arguments'' (TmCall func args))
               else
                 (case typecheck_recfunc_args args params tyEnv of
                    Inl e \<Rightarrow> Inl e
                  | Inr u \<Rightarrow> Inr retType)
           | _ \<Rightarrow> Inl (CheckError ''function type expected'' func)))"
| "typecheck_recfunc (TmSeq body rest) tyEnv =
     (case typecheck_recfunc body tyEnv of
        Inl e \<Rightarrow> Inl e
      | Inr ty \<Rightarrow> typecheck_recfunc rest tyEnv)"
| "typecheck_recfunc (TmConst name init rest) tyEnv =
     (case typecheck_recfunc init tyEnv of
        Inl e \<Rightarrow> Inl e
      | Inr ty \<Rightarrow> typecheck_recfunc rest (tyEnv(name \<mapsto> ty)))"
| "typecheck_recfunc (TmObjectNew props) tyEnv =
     (case typecheck_recfunc_props props tyEnv of
        Inl e \<Rightarrow> Inl e
      | Inr propTys \<Rightarrow> Inr (Object propTys))"
| "typecheck_recfunc (TmObjectGet obj propName) tyEnv =
     (case typecheck_recfunc obj tyEnv of
        Inl e \<Rightarrow> Inl e
      | Inr objectTy \<Rightarrow>
          (case objectTy of
             Object props \<Rightarrow>
               (case find (\<lambda>prop. fst prop = propName) props of
                  None \<Rightarrow>
                    Inl (CheckError (''unknown property name: '' @ propName) (TmObjectGet obj propName))
                | Some prop \<Rightarrow> Inr (snd prop))
           | _ \<Rightarrow> Inl (CheckError ''object type expected'' obj)))"
| "typecheck_recfunc (TmRecFunc funcName params retType body rest) tyEnv =
     (case typecheck_recfunc body ((bindParams tyEnv params)(funcName \<mapsto> Func params retType)) of
        Inl e \<Rightarrow> Inl e
      | Inr retTy \<Rightarrow>
          if \<not> typeEq_sub retType retTy
          then Inl (CheckError ''wrong return type'' (TmRecFunc funcName params retType body rest))
          else typecheck_recfunc rest (tyEnv(funcName \<mapsto> Func params retType)))"
| "typecheck_recfunc_args [] params tyEnv = Inr ()"
| "typecheck_recfunc_args (arg # args) params tyEnv =
     (case typecheck_recfunc arg tyEnv of
        Inl e \<Rightarrow> Inl e
      | Inr argTy \<Rightarrow>
          (case params of
             [] \<Rightarrow> Inl JsTypeError
           | param # params' \<Rightarrow>
               if \<not> typeEq_sub (snd param) argTy
               then Inl (CheckError ''parameter type mismatch'' arg)
               else typecheck_recfunc_args args params' tyEnv))"
| "typecheck_recfunc_props [] tyEnv = Inr []"
| "typecheck_recfunc_props (prop # props) tyEnv =
     (case typecheck_recfunc (snd prop) tyEnv of
        Inl e \<Rightarrow> Inl e
      | Inr ty \<Rightarrow>
          (case typecheck_recfunc_props props tyEnv of
             Inl e \<Rightarrow> Inl e
           | Inr propTys \<Rightarrow> Inr ((fst prop, ty) # propTys)))"

section \<open>The data model's invariant on field names\<close>

text \<open>
  The spec's data model asks the field names of an \<open>Object\<close> type to be unique; the
  code never checks it. \<open>uniqueFields\<close> is that invariant, for every \<open>Object\<close> type
  inside a type.
\<close>

function uniqueFields :: "ty \<Rightarrow> bool" where
  "uniqueFields Boolean = True"
| "uniqueFields Number = True"
| "uniqueFields (Func params retType) =
     (list_all (\<lambda>p. uniqueFields (snd p)) params \<and> uniqueFields retType)"
| "uniqueFields (Object props) =
     (distinct (map fst props) \<and> list_all (\<lambda>p. uniqueFields (snd p)) props)"
  by pat_completeness auto
termination
proof (relation "measure size", goal_cases)
  case 1
  show ?case by simp
next
  case (2 params retType p)
  then show ?case using size_snd_member [of p params] by simp
next
  case 3
  then show ?case by simp
next
  case (4 props p)
  then show ?case using size_snd_member [of p props] by simp
qed


section \<open>Parameter lists of base types\<close>

text \<open>
  A parameter list all of whose declared types are \<open>Boolean\<close> or \<open>Number\<close>; used to
  describe a family of recursive record types below.
\<close>

definition plainParams :: "(string \<times> rty) list \<Rightarrow> bool" where
  "plainParams params = list_all (\<lambda>p. snd p = RBoolean \<or> snd p = RNumber) params"

section \<open>Fuel\<close>

text \<open>
  A call that returns with some fuel returns the same value with any larger fuel: the
  fuel only bounds the search for the result, it never changes it. So a statement
  \<open>typeEq n a b = Some r\<close> says that the call \<open>typeEq(a, b)\<close> of the source returns
  (or throws) \<open>r\<close>.
\<close>

lemma simplifyType_mono:
  "simplifyType n ty = Some r \<Longrightarrow> n \<le> m \<Longrightarrow> simplifyType m ty = Some r"
proof (induction n arbitrary: ty m)
  case 0
  then show ?case by simp
next
  case (Suc n)
  then obtain m' where m: "m = Suc m'" and le: "n \<le> m'" by (cases m) auto
  show ?case
  proof (cases ty)
    case (Rec name type)
    with Suc.prems have "simplifyType n (expandType type name (Rec name type)) = Some r" by simp
    then have "simplifyType m' (expandType type name (Rec name type)) = Some r"
      using le by (rule Suc.IH)
    with Rec m show ?thesis by simp
  qed (use Suc.prems m in auto)
qed

lemma simplifyType_not_Rec: "simplifyType n ty = Some r \<Longrightarrow> r \<noteq> Rec x t"
  by (induction n ty rule: simplifyType.induct) auto

lemma typeEqSub_params_mono:
  "typeEqSub_params eq ps1 ps2 = Some r \<Longrightarrow> (\<And>a b r. eq a b = Some r \<Longrightarrow> eq' a b = Some r)
    \<Longrightarrow> typeEqSub_params eq' ps1 ps2 = Some r"
proof (induction eq ps1 ps2 rule: typeEqSub_params.induct)
  case (3 eq p1 params1 p2 params2)
  show ?case
  proof (cases "eq (snd p1) (snd p2)")
    case None
    with 3 show ?thesis by simp
  next
    case (Some v)
    then have "eq' (snd p1) (snd p2) = Some v" by (rule 3)
    with Some 3 show ?thesis by (cases v) (auto split: bool.splits)
  qed
qed simp_all

lemma typeEqSub_props_mono:
  "typeEqSub_props eq ps1 ps2 = Some r \<Longrightarrow> (\<And>a b r. eq a b = Some r \<Longrightarrow> eq' a b = Some r)
    \<Longrightarrow> typeEqSub_props eq' ps1 ps2 = Some r"
proof (induction eq ps1 ps2 rule: typeEqSub_props.induct)
  case (2 eq props1 prop2 props2)
  show ?case
  proof (cases "find (\<lambda>prop1. fst prop1 = fst prop2) props1")
    case None
    with 2 show ?thesis by simp
  next
    case (Some prop1)
    note f = Some
    show ?thesis
    proof (cases "eq (snd prop1) (snd prop2)")
      case None
      with 2 f show ?thesis by simp
    next
      case (Some v)
      then have "eq' (snd prop1) (snd prop2) = Some v" by (rule 2)
      with Some 2 f show ?thesis by (cases v) (auto split: bool.splits)
    qed
  qed
qed simp_all


lemma typeEqSub_mono:
  "typeEqSub n a b seen = Some r \<Longrightarrow> n \<le> m \<Longrightarrow> typeEqSub m a b seen = Some r"
proof (induction n arbitrary: a b seen r m)
  case 0
  then show ?case by simp
next
  case (Suc n)
  then obtain m' where m: "m = Suc m'" and le: "n \<le> m'" by (cases m) auto
  have pr: "Some r = typeEqSub (Suc n) a b seen" using Suc.prems(1) by simp
  have IH: "\<And>a b seen r. typeEqSub n a b seen = Some r \<Longrightarrow> typeEqSub m' a b seen = Some r"
    using Suc.IH le by blast
  have S: "\<And>t r. simplifyType n t = Some r \<Longrightarrow> simplifyType m' t = Some r"
    using simplifyType_mono le by blast
  have P: "\<And>ps1 ps2 r. typeEqSub_params (\<lambda>a b. typeEqSub n a b seen) ps1 ps2 = Some r
      \<Longrightarrow> typeEqSub_params (\<lambda>a b. typeEqSub m' a b seen) ps1 ps2 = Some r"
    by (erule typeEqSub_params_mono) (rule IH)
  have Q: "\<And>ps1 ps2 r. typeEqSub_props (\<lambda>a b. typeEqSub n a b seen) ps1 ps2 = Some r
      \<Longrightarrow> typeEqSub_props (\<lambda>a b. typeEqSub m' a b seen) ps1 ps2 = Some r"
    by (erule typeEqSub_props_mono) (rule IH)
  show ?case
  proof (cases "typeEqSub_seen seen a b")
    case (Inl e)
    with pr have "r = Inl e" by simp
    with Inl m show ?thesis by simp
  next
    case (Inr v)
    show ?thesis
    proof (cases v)
      case True
      with Inr pr have "r = Inr True" by simp
      with Inr True m show ?thesis by simp
    next
      case False
      note sn = Inr False
      show ?thesis
      proof (cases "\<exists>x t. a = Rec x t")
        case True
        with pr sn obtain a' where a': "simplifyType n a = Some a'"
          and r: "typeEqSub n a' b (seen @ [(a, b)]) = Some r"
          by (auto split: option.splits)
        from a' have "simplifyType m' a = Some a'" by (rule S)
        moreover from r have "typeEqSub m' a' b (seen @ [(a, b)]) = Some r" by (rule IH)
        ultimately show ?thesis using sn True m by auto
      next
        case na: False
        show ?thesis
        proof (cases "\<exists>x t. b = Rec x t")
          case True
          with pr sn na obtain b' where b': "simplifyType n b = Some b'"
            and r: "typeEqSub n a b' (seen @ [(a, b)]) = Some r"
            by (cases a) (auto split: option.splits)
          from b' have "simplifyType m' b = Some b'" by (rule S)
          moreover from r have "typeEqSub m' a b' (seen @ [(a, b)]) = Some r" by (rule IH)
          ultimately show ?thesis using sn True na m by (cases a) auto
        next
          case nb: False
          show ?thesis
          proof (cases b)
            case RBoolean
            with pr sn na m show ?thesis by (cases a) auto
          next
            case RNumber
            with pr sn na m show ?thesis by (cases a) auto
          next
            case (TypeVar y)
            with pr sn na m show ?thesis by (cases a) auto
          next
            case (Rec y u)
            with nb show ?thesis by simp
          next
            case (RObject ps2)
            show ?thesis
            proof (cases a)
              case (RObject ps1)
              with pr sn \<open>b = RObject ps2\<close> m Q [of ps1 ps2 r] show ?thesis
                by (auto split: if_splits)
            qed (use pr sn na m \<open>b = RObject ps2\<close> in auto)
          next
            case (RFunc ps2 r2)
            show ?thesis
            proof (cases a)
              case (RFunc ps1 r1)
              show ?thesis
              proof (cases "length ps1 = length ps2")
                case False
                with pr sn RFunc \<open>b = RFunc ps2 r2\<close> m show ?thesis by simp
              next
                case True
                with pr sn RFunc \<open>b = RFunc ps2 r2\<close>
                obtain v where v: "typeEqSub_params (\<lambda>a b. typeEqSub n a b seen) ps1 ps2 = Some v"
                  by (auto split: option.splits)
                then have v': "typeEqSub_params (\<lambda>a b. typeEqSub m' a b seen) ps1 ps2 = Some v"
                  by (rule P)
                show ?thesis
                proof (cases "v = Inr True")
                  case False
                  with pr sn RFunc \<open>b = RFunc ps2 r2\<close> True v have "r = v"
                    by (auto split: sum.splits bool.splits)
                  with sn RFunc \<open>b = RFunc ps2 r2\<close> True v' False m show ?thesis
                    by (auto split: sum.splits bool.splits)
                next
                  case vt: True
                  with pr sn RFunc \<open>b = RFunc ps2 r2\<close> True v
                  have "typeEqSub n r1 r2 seen = Some r" by simp
                  then have "typeEqSub m' r1 r2 seen = Some r" by (rule IH)
                  with sn RFunc \<open>b = RFunc ps2 r2\<close> True v' vt m show ?thesis by simp
                qed
              qed
            qed (use pr sn na m \<open>b = RFunc ps2 r2\<close> in auto)
          qed
        qed
      qed
    qed
  qed
qed

lemma typeEq_mono: "typeEq n a b = Some r \<Longrightarrow> n \<le> m \<Longrightarrow> typeEq m a b = Some r"
  unfolding typeEq_def by (rule typeEqSub_mono)

section \<open>Properties of the recursive-types checker\<close>

text \<open>
  C2 (reflexivity of type equality: \<open>typeEq(T, T)\<close> returns true for every type \<open>T\<close>
  without free type variables, recursive ones included). The code does not meet it.
  For \<open>T = Rec X. (p: () => X) => number\<close>, a closed type, \<open>typeEq(T, T)\<close> raises a
  TypeError: once the pair (unfolded \<open>T\<close>, \<open>T\<close>) is in \<open>seen\<close>, the parameter types
  \<open>() => T\<close> are compared, and the membership test calls \<open>typeEqNaive\<close> on the
  one-parameter function type from \<open>seen\<close> and the parameterless \<open>() => T\<close>. The length
  check of \<open>typeEqNaive\<close> is commented out in the source (with the remark that it is
  probably needed), so the loop reads \<open>ty2.params[0].type\<close> on an empty array. The
  theorem evaluates the call, for every amount of fuel from four on.
\<close>

theorem typeEq_reflexivity_fails:
  "typeEq (Suc (Suc (Suc (Suc n))))
     (Rec ''X'' (RFunc [(''p'', RFunc [] (TypeVar ''X''))] RNumber))
     (Rec ''X'' (RFunc [(''p'', RFunc [] (TypeVar ''X''))] RNumber))
   = Some (Inl JsTypeError)"
  by (simp add: typeEq_def)

text \<open>
  On a record type \<open>Rec X. {f: (ps) => X}\<close> whose parameter list \<open>ps\<close> has base types
  only (the empty list of \<open>() => X\<close> included), \<open>typeEq\<close> returns within five nested
  calls of \<open>typeEqSub\<close>: each side is unfolded once, and when the comparison comes
  back to the pair of \<open>Rec\<close> types it is found in \<open>seen\<close>.
\<close>

lemma plainParams_Cons:
  "plainParams (p # ps) \<longleftrightarrow> (snd p = RBoolean \<or> snd p = RNumber) \<and> plainParams ps"
  by (simp add: plainParams_def)

lemma expandType_plainParams:
  "plainParams ps \<Longrightarrow> map (\<lambda>p. (fst p, expandType (snd p) x r)) ps = ps"
  by (induction ps) (auto simp: plainParams_Cons)

lemma typeEqNaive_params_plain:
  "plainParams ps \<Longrightarrow> typeEqNaive_params ps ps m = Inr True"
  by (induction ps) (auto simp: plainParams_Cons)

lemma typeEqSub_params_plain:
  assumes eq: "\<And>a b. a = RBoolean \<or> a = RNumber \<Longrightarrow> b = RBoolean \<or> b = RNumber \<Longrightarrow>
      eq a b = Some (Inr (a = b))"
  shows "plainParams ps \<Longrightarrow> plainParams qs \<Longrightarrow> length ps = length qs \<Longrightarrow>
    typeEqSub_params eq ps qs = Some (Inr (map snd ps = map snd qs))"
proof (induction ps arbitrary: qs)
  case Nil
  then show ?case by simp
next
  case (Cons p ps)
  then obtain q qs' where q: "qs = q # qs'" by (cases qs) auto
  with Cons.prems have pp: "snd p = RBoolean \<or> snd p = RNumber" and pq: "snd q = RBoolean \<or> snd q = RNumber"
    and ps: "plainParams ps" and qs': "plainParams qs'" and l: "length ps = length qs'"
    by (simp_all add: plainParams_Cons)
  from pp pq have e: "eq (snd p) (snd q) = Some (Inr (snd p = snd q))" by (rule eq)
  from Cons.IH [OF ps qs' l] have r: "typeEqSub_params eq ps qs' = Some (Inr (map snd ps = map snd qs'))" .
  show ?case unfolding q using e r by (cases "snd p = snd q") simp_all
qed

lemma typeEqSub_plain:
  assumes a: "a = RBoolean \<or> a = RNumber" and b: "b = RBoolean \<or> b = RNumber"
  shows "typeEqSub (Suc n) a b
    [(Rec X (RObject [(f, RFunc ps (TypeVar X))]), t2),
     (RObject [(f, RFunc ps (Rec X (RObject [(f, RFunc ps (TypeVar X))])))], t2')]
    = Some (Inr (a = b))"
  using a b by auto

lemma typeEq_streams_plain:
  assumes ps: "plainParams ps" and qs: "plainParams qs"
  shows "typeEq (Suc (Suc (Suc (Suc (Suc n)))))
     (Rec X (RObject [(f, RFunc ps (TypeVar X))]))
     (Rec Y (RObject [(g, RFunc qs (TypeVar Y))]))
   = Some (Inr (f = g \<and> map snd ps = map snd qs))"
proof -
  let ?T1 = "Rec X (RObject [(f, RFunc ps (TypeVar X))])"
  let ?T2 = "Rec Y (RObject [(g, RFunc qs (TypeVar Y))])"
  let ?S1 = "RObject [(f, RFunc ps ?T1)]"
  let ?S2 = "RObject [(g, RFunc qs ?T2)]"
  let ?seen = "[(?T1, ?T2), (?S1, ?T2)]"
  have n1: "typeEqNaive ?T1 ?T1 Map.empty = Inr True"
    using ps by (simp add: typeEqNaive_params_plain)
  have n2: "typeEqNaive ?T2 ?T2 Map.empty = Inr True"
    using qs by (simp add: typeEqNaive_params_plain)
  have again: "typeEqSub (Suc n) ?T1 ?T2 ?seen = Some (Inr True)"
    using n1 n2 by simp
  have pars: "length ps = length qs \<Longrightarrow>
      typeEqSub_params (\<lambda>a b. typeEqSub (Suc n) a b ?seen) ps qs = Some (Inr (map snd ps = map snd qs))"
    using ps qs by (intro typeEqSub_params_plain typeEqSub_plain)
  have func: "typeEqSub (Suc (Suc n)) (RFunc ps ?T1) (RFunc qs ?T2) ?seen
      = Some (Inr (map snd ps = map snd qs))"
  proof (cases "length ps = length qs")
    case True
    show ?thesis using pars [OF True] again True by (cases "map snd ps = map snd qs") simp_all
  next
    case False
    then have "map snd ps \<noteq> map snd qs" by (metis length_map)
    with False show ?thesis by simp
  qed
  have obj: "typeEqSub (Suc (Suc (Suc n))) ?S1 ?S2 ?seen = Some (Inr (f = g \<and> map snd ps = map snd qs))"
    using func ps by (cases "f = g"; cases "map snd ps = map snd qs") (simp_all add: typeEqNaive_params_plain)
  have s1: "simplifyType (Suc (Suc (Suc (Suc n)))) ?T1 = Some ?S1"
    using ps by (simp add: expandType_plainParams)
  have s2: "simplifyType (Suc (Suc (Suc n))) ?T2 = Some ?S2"
    using qs by (simp add: expandType_plainParams)
  have "typeEqSub (Suc (Suc (Suc (Suc n)))) ?S1 ?T2 [(?T1, ?T2)]
      = Some (Inr (f = g \<and> map snd ps = map snd qs))"
    using obj s2 by simp
  then show ?thesis unfolding typeEq_def using s1 by simp
qed

text \<open>
  C3 (the equality check returns an answer, after finitely many recursive calls, on a
  self-referential record type whose only field is a function returning the recursive
  type). The code does not meet it on every such type. Take
  \<open>Z = Rec Z. (q: () => Z) => number\<close> and \<open>T = Rec X. {f: (p: Z) => X}\<close>, a record
  type whose only field is a function returning \<open>X\<close>. \<open>typeEq(T, T)\<close> returns no
  answer: it raises a TypeError. Comparing the parameter type \<open>Z\<close> with itself
  unfolds it to \<open>U = (q: () => Z) => number\<close> and puts the pair \<open>(U, Z)\<close> in \<open>seen\<close>;
  when the parameter types \<open>() => Z\<close> of \<open>U\<close> are compared, the membership test calls
  \<open>typeEqNaive\<close> on \<open>U\<close> and \<open>() => Z\<close>, whose loop reads \<open>ty2.params[0].type\<close> on an
  empty array. This is the missing length check of \<open>typeEqNaive\<close> again (see C2). The
  theorem evaluates the call, for every amount of fuel from eight on. Where that
  check is not reached the call does return: \<open>typeEq_streams_plain\<close> above shows it for
  parameter lists of base types, the empty list of \<open>() => X\<close> included.
\<close>

theorem typeEq_stream_TypeError:
  "typeEq (Suc (Suc (Suc (Suc (Suc (Suc (Suc (Suc n))))))))
     (Rec ''X'' (RObject [(''f'',
        RFunc [(''p'', Rec ''Z'' (RFunc [(''q'', RFunc [] (TypeVar ''Z''))] RNumber))] (TypeVar ''X''))]))
     (Rec ''X'' (RObject [(''f'',
        RFunc [(''p'', Rec ''Z'' (RFunc [(''q'', RFunc [] (TypeVar ''Z''))] RNumber))] (TypeVar ''X''))]))
   = Some (Inl JsTypeError)"
  by (simp add: typeEq_def)

text \<open>
  C8 (the renaming-aware comparison returns false, rather than raising, on a
  \<open>TypeVar\<close> whose binder is not in the renaming map). The code raises: comparing the
  type variable \<open>X\<close> with itself under the empty map throws
  \<open>unknown type variable: X\<close>.
\<close>

theorem typeEqNaive_unbound_TypeVar_counterexample:
  "typeEqNaive (TypeVar ''X'') (TypeVar ''X'') Map.empty = Inl (Thrown ''unknown type variable: X'')"
  by (simp add: objectPrototypeKeys_def)

text \<open>
  C8, as the code has it. When both types are type variables and the name \<open>x\<close> of the
  first is not a key of the map, \<open>typeEqNaive\<close> throws \<open>unknown type variable: x\<close>,
  unless \<open>x\<close> is a name every object inherits from \<open>Object.prototype\<close> (such as
  \<open>constructor\<close>, \<open>toString\<close>, \<open>valueOf\<close>): then it returns false. When \<open>x\<close> is a key,
  it returns whether the map sends \<open>x\<close> to the name of the second. It returns false,
  raising nothing, when exactly one of the two types is a type variable.
\<close>

theorem typeEqNaive_TypeVar:
  "(m x = None \<and> x \<notin> set objectPrototypeKeys \<longrightarrow>
      typeEqNaive (TypeVar x) (TypeVar y) m = Inl (Thrown (''unknown type variable: '' @ x)))
   \<and> (m x = None \<and> x \<in> set objectPrototypeKeys \<longrightarrow>
      typeEqNaive (TypeVar x) (TypeVar y) m = Inr False)
   \<and> (m x = Some z \<longrightarrow> typeEqNaive (TypeVar x) (TypeVar y) m = Inr (z = y))
   \<and> ((\<forall>x. ty1 \<noteq> TypeVar x) \<longrightarrow> typeEqNaive ty1 (TypeVar y) m = Inr False)
   \<and> ((\<forall>y. ty2 \<noteq> TypeVar y) \<longrightarrow> typeEqNaive (TypeVar x) ty2 m = Inr False)"
  by (cases ty1; cases ty2) auto

theorem typeEqNaive_TypeVar_witness:
  "Map.empty ''X'' = (None :: string option) \<and> ''X'' \<notin> set objectPrototypeKeys
   \<and> typeEqNaive (TypeVar ''X'') (TypeVar ''Y'') Map.empty = Inl (Thrown ''unknown type variable: X'')
   \<and> ''constructor'' \<in> set objectPrototypeKeys
   \<and> typeEqNaive (TypeVar ''constructor'') (TypeVar ''Y'') Map.empty = Inr False
   \<and> typeEqNaive (TypeVar ''X'') (TypeVar ''Y'') [''X'' \<mapsto> ''Y''] = Inr True
   \<and> typeEqNaive (TypeVar ''constructor'') (TypeVar ''Y'') [''constructor'' \<mapsto> ''Y''] = Inr True
   \<and> typeEqNaive RNumber (TypeVar ''Y'') Map.empty = Inr False
   \<and> typeEqNaive (TypeVar ''X'') RNumber Map.empty = Inr False"
  using typeEqNaive_TypeVar [of Map.empty "''X''" "''Y''" "''Y''" RNumber RNumber]
    typeEqNaive_TypeVar [of Map.empty "''constructor''" "''Y''" "''Y''" RNumber RNumber]
    typeEqNaive_TypeVar [of "[''X'' \<mapsto> ''Y'']" "''X''" "''Y''" "''Y''" RNumber RNumber]
    typeEqNaive_TypeVar [of "[''constructor'' \<mapsto> ''Y'']" "''constructor''" "''Y''" "''Y''"
      RNumber RNumber]
  by (simp add: objectPrototypeKeys_def)

text \<open>
  C9 (\<open>simplifyType\<close> applied to a \<open>Rec\<close> type is exactly its one-step unfolding
  \<open>expandType(rec.type, rec.name, rec)\<close>). Not when the unfolding is again a \<open>Rec\<close>:
  \<open>simplifyType\<close> calls itself on the unfolding. On \<open>Rec X. Rec Y. number\<close> the
  one-step unfolding is \<open>Rec Y. number\<close>, and \<open>simplifyType\<close> returns \<open>number\<close>.
\<close>

theorem simplifyType_one_step_counterexample:
  "simplifyType 3 (Rec ''X'' (Rec ''Y'' RNumber)) = Some RNumber
   \<and> expandType (Rec ''Y'' RNumber) ''X'' (Rec ''X'' (Rec ''Y'' RNumber)) = Rec ''Y'' RNumber"
  by (simp add: eval_nat_numeral)

text \<open>
  C9, as the code has it. \<open>simplifyType\<close> applied to a \<open>Rec\<close> type is \<open>simplifyType\<close>
  applied to its one-step unfolding \<open>expandType(rec.type, rec.name, rec)\<close>, in which
  the whole \<open>Rec\<close> node replaces its binder name; when that unfolding is not a \<open>Rec\<close>,
  the result is exactly the unfolding; and whatever \<open>simplifyType\<close> returns is not a
  \<open>Rec\<close>.
\<close>

theorem simplifyType_unfolds:
  "simplifyType (Suc n) (Rec name type) = simplifyType n (expandType type name (Rec name type))
   \<and> ((\<forall>y u. expandType type name (Rec name type) \<noteq> Rec y u) \<longrightarrow>
        simplifyType (Suc (Suc n)) (Rec name type) = Some (expandType type name (Rec name type)))
   \<and> (simplifyType n ty = Some r \<longrightarrow> (\<forall>y u. r \<noteq> Rec y u))"
proof (intro conjI impI)
  assume "\<forall>y u. expandType type name (Rec name type) \<noteq> Rec y u"
  then show "simplifyType (Suc (Suc n)) (Rec name type) = Some (expandType type name (Rec name type))"
    by (cases "expandType type name (Rec name type)") auto
next
  assume "simplifyType n ty = Some r"
  then show "\<forall>y u. r \<noteq> Rec y u" using simplifyType_not_Rec by blast
qed simp

theorem simplifyType_unfolds_witness:
  "simplifyType 3 (Rec ''X'' (RObject [(''rest'', RFunc [] (TypeVar ''X''))]))
     = simplifyType 2 (RObject [(''rest'', RFunc [] (Rec ''X'' (RObject [(''rest'', RFunc [] (TypeVar ''X''))])))])
   \<and> simplifyType 4 (Rec ''X'' (RObject [(''rest'', RFunc [] (TypeVar ''X''))]))
     = Some (RObject [(''rest'', RFunc [] (Rec ''X'' (RObject [(''rest'', RFunc [] (TypeVar ''X''))])))])
   \<and> simplifyType 2 (Rec ''X'' (RObject [(''rest'', RFunc [] (TypeVar ''X''))]))
     = Some (RObject [(''rest'', RFunc [] (Rec ''X'' (RObject [(''rest'', RFunc [] (TypeVar ''X''))])))])"
  using simplifyType_unfolds [of 2 "''X''" "RObject [(''rest'', RFunc [] (TypeVar ''X''))]"
      "Rec ''X'' (RObject [(''rest'', RFunc [] (TypeVar ''X''))])"
      "RObject [(''rest'', RFunc [] (Rec ''X'' (RObject [(''rest'', RFunc [] (TypeVar ''X''))])))]"]
  by (simp add: eval_nat_numeral)

section \<open>Properties of the subtyping checker\<close>

lemma find_distinct_fst:
  "distinct (map fst ps) \<Longrightarrow> p \<in> set ps \<Longrightarrow> find (\<lambda>q. fst q = fst p) ps = Some p"
proof (induction ps)
  case Nil
  then show ?case by simp
next
  case (Cons q ps)
  show ?case
  proof (cases "p = q")
    case True
    then show ?thesis by simp
  next
    case False
    with Cons.prems have p: "p \<in> set ps" by simp
    then have "fst p \<in> fst ` set ps" by (rule imageI)
    with Cons.prems have "fst q \<noteq> fst p" by auto
    with Cons p show ?thesis by simp
  qed
qed

lemma find_fst_SomeD:
  "find (\<lambda>q. fst q = n) ps = Some p \<Longrightarrow> p \<in> set ps \<and> fst p = n"
  by (auto simp: find_Some_iff)

lemma subType_refl: "uniqueFields A \<Longrightarrow> subType A A"
proof (induction A)
  case Boolean
  show ?case by simp
next
  case Number
  show ?case by simp
next
  case (Func params retType)
  have "list_all2 (\<lambda>p1 p2. subType (snd p2) (snd p1)) params params"
  proof (rule list_all2_all_nthI)
    show "length params = length params" by simp
  next
    fix i assume i: "i < length params"
    then have m: "params ! i \<in> set params" by simp
    with Func.prems have "uniqueFields (snd (params ! i))" by (simp add: list_all_iff)
    moreover have "snd (params ! i) \<in> Basic_BNFs.snds (params ! i)"
      by (cases "params ! i") simp
    ultimately show "subType (snd (params ! i)) (snd (params ! i))"
      using Func.IH(1) m by blast
  qed
  moreover from Func have "subType retType retType" by simp
  ultimately show ?case by simp
next
  case (Object props)
  have "list_all (\<lambda>prop2. case find (\<lambda>prop1. fst prop1 = fst prop2) props of
          None \<Rightarrow> False | Some prop1 \<Rightarrow> subType (snd prop1) (snd prop2)) props"
    unfolding list_all_iff
  proof
    fix p assume p: "p \<in> set props"
    from Object.prems have "distinct (map fst props)" by simp
    then have f: "find (\<lambda>q. fst q = fst p) props = Some p" using p by (rule find_distinct_fst)
    from Object.prems p have "uniqueFields (snd p)" by (simp add: list_all_iff)
    moreover have "snd p \<in> Basic_BNFs.snds p" by (cases p) simp
    ultimately have "subType (snd p) (snd p)" using Object.IH p by blast
    with f show "case find (\<lambda>prop1. fst prop1 = fst p) props of
          None \<Rightarrow> False | Some prop1 \<Rightarrow> subType (snd prop1) (snd p)" by simp
  qed
  then show ?case by simp
qed

lemma subType_FuncD:
  "subType A (Func ps2 r2) \<Longrightarrow>
     \<exists>ps1 r1. A = Func ps1 r1 \<and> length ps1 = length ps2 \<and>
       list_all2 (\<lambda>p1 p2. subType (snd p2) (snd p1)) ps1 ps2 \<and> subType r1 r2"
  by (cases A) auto

lemma subType_ObjectD:
  "subType A (Object ps2) \<Longrightarrow>
     \<exists>ps1. A = Object ps1 \<and>
       (\<forall>p2 \<in> set ps2. \<exists>p1. find (\<lambda>q. fst q = fst p2) ps1 = Some p1 \<and> subType (snd p1) (snd p2))"
  by (cases A) (auto simp: list_all_iff split: option.splits)

lemma subType_trans: "subType A B \<Longrightarrow> subType B C \<Longrightarrow> subType A C"
proof (induction B arbitrary: A C)
  case Boolean
  then show ?case by (cases C) auto
next
  case Number
  then show ?case by (cases C) auto
next
  case (Func psB rB)
  from Func.prems(1) obtain psA rA where A: "A = Func psA rA" and lA: "length psA = length psB"
    and pA: "list_all2 (\<lambda>p1 p2. subType (snd p2) (snd p1)) psA psB" and rA: "subType rA rB"
    using subType_FuncD by blast
  from Func.prems(2) obtain psC rC where C: "C = Func psC rC" and lC: "length psB = length psC"
    and pC: "list_all2 (\<lambda>p1 p2. subType (snd p2) (snd p1)) psB psC" and rC: "subType rB rC"
    by (cases C) auto
  have "list_all2 (\<lambda>p1 p2. subType (snd p2) (snd p1)) psA psC"
  proof (rule list_all2_all_nthI)
    show "length psA = length psC" using lA lC by simp
  next
    fix i assume i: "i < length psA"
    with lA have m: "psB ! i \<in> set psB" by simp
    have s: "snd (psB ! i) \<in> Basic_BNFs.snds (psB ! i)" by (cases "psB ! i") simp
    from pA i have 1: "subType (snd (psB ! i)) (snd (psA ! i))" by (simp add: list_all2_conv_all_nth)
    from pC i lA have 2: "subType (snd (psC ! i)) (snd (psB ! i))" by (simp add: list_all2_conv_all_nth)
    from Func.IH(1) [OF m s 2 1] show "subType (snd (psC ! i)) (snd (psA ! i))" .
  qed
  moreover have "subType rA rC" using Func.IH(2) rA rC by blast
  ultimately show ?case using A C lA lC by simp
next
  case (Object psB)
  from Object.prems(1) obtain psA where A: "A = Object psA"
    and pA: "\<forall>p2 \<in> set psB. \<exists>p1. find (\<lambda>q. fst q = fst p2) psA = Some p1 \<and> subType (snd p1) (snd p2)"
    using subType_ObjectD by blast
  show ?case
  proof (cases C)
    case (Object psC)
    have "list_all (\<lambda>prop2. case find (\<lambda>prop1. fst prop1 = fst prop2) psA of
          None \<Rightarrow> False | Some prop1 \<Rightarrow> subType (snd prop1) (snd prop2)) psC"
      unfolding list_all_iff
    proof
      fix pc assume pc: "pc \<in> set psC"
      with Object.prems(2) Object obtain pb where fb: "find (\<lambda>q. fst q = fst pc) psB = Some pb"
        and sb: "subType (snd pb) (snd pc)"
        by (auto simp: list_all_iff split: option.splits)
      from fb have mb: "pb \<in> set psB" and nb: "fst pb = fst pc" using find_fst_SomeD by fastforce+
      from pA mb obtain pa where fa: "find (\<lambda>q. fst q = fst pb) psA = Some pa"
        and sa: "subType (snd pa) (snd pb)" by blast
      have s: "snd pb \<in> Basic_BNFs.snds pb" by (cases pb) simp
      from Object.IH [OF mb s sa sb] have "subType (snd pa) (snd pc)" .
      with fa nb show "case find (\<lambda>prop1. fst prop1 = fst pc) psA of
          None \<Rightarrow> False | Some prop1 \<Rightarrow> subType (snd prop1) (snd pc)" by simp
    qed
    with A Object show ?thesis by simp
  qed (use Object.prems(2) in auto)
qed


text \<open>
  C4 (\<open>subType\<close> is reflexive and transitive, for all types). Reflexivity fails on an
  \<open>Object\<close> type that lists a field name twice with different types: \<open>find\<close> returns
  the first field of that name for both occurrences, so \<open>{a: number, a: boolean}\<close> is
  not a subtype of itself.
\<close>

theorem subType_refl_counterexample:
  "\<not> subType (Object [(''a'', Number), (''a'', Boolean)]) (Object [(''a'', Number), (''a'', Boolean)])"
  by simp

text \<open>
  C4, as the code has it. \<open>subType(A, A)\<close> returns true for every type \<open>A\<close> whose
  \<open>Object\<close> types have unique field names (the invariant of the data model, which the
  code does not check); and for all types \<open>A\<close>, \<open>B\<close>, \<open>C\<close>, with or without that
  invariant, if \<open>subType(A, B)\<close> and \<open>subType(B, C)\<close> return true then so does
  \<open>subType(A, C)\<close>.
\<close>

theorem subType_refl_trans:
  "(uniqueFields A \<longrightarrow> subType A A) \<and> (subType A B \<and> subType B C \<longrightarrow> subType A C)"
  using subType_refl subType_trans by blast

theorem subType_refl_trans_witness:
  "uniqueFields (Object [(''foo'', Number), (''bar'', Boolean)])
   \<and> subType (Object [(''foo'', Number), (''bar'', Boolean)]) (Object [(''foo'', Number), (''bar'', Boolean)])
   \<and> subType (Object [(''foo'', Number), (''bar'', Boolean)]) (Object [(''foo'', Number)])
   \<and> subType (Object [(''foo'', Number)]) (Object [])
   \<and> subType (Object [(''foo'', Number), (''bar'', Boolean)]) (Object [])"
  using subType_refl_trans [of "Object [(''foo'', Number), (''bar'', Boolean)]"
      "Object [(''foo'', Number)]" "Object []"]
  by simp

text \<open>
  C5 (function subtyping is contravariant in the parameters and covariant in the
  return type; the reverse direction can fail; parameter lists of different lengths are
  never related). For one-parameter function types \<open>(A1) => B1\<close> and \<open>(A2) => B2\<close>,
  whatever the parameter names, \<open>subType\<close> returns true exactly when
  \<open>subType(A2, A1)\<close> and \<open>subType(B1, B2)\<close> do; for \<open>A1 = {}\<close>, \<open>A2 = {foo: number}\<close>
  and \<open>B1 = B2 = number\<close> the premises hold and the reverse direction fails. For any
  number of parameters the rule is the same index by index, and different lengths give
  false.
\<close>

theorem subType_Func_variance:
  "(subType A2 A1 \<and> subType B1 B2 \<longrightarrow> subType (Func [(x1, A1)] B1) (Func [(x2, A2)] B2))
   \<and> (subType (Func [(x1, A1)] B1) (Func [(x2, A2)] B2) \<longrightarrow> subType A2 A1 \<and> subType B1 B2)
   \<and> (\<exists>A1 A2 B1 B2. subType A2 A1 \<and> subType B1 B2
         \<and> \<not> subType (Func [(x2, A2)] B2) (Func [(x1, A1)] B1))
   \<and> (length params1 \<noteq> length params2 \<longrightarrow>
         \<not> subType (Func params1 retType1) (Func params2 retType2))
   \<and> (subType (Func params1 retType1) (Func params2 retType2) \<longleftrightarrow>
         length params1 = length params2
         \<and> (\<forall>i < length params1. subType (snd (params2 ! i)) (snd (params1 ! i)))
         \<and> subType retType1 retType2)"
proof -
  have "subType (Object [(''foo'', Number)]) (Object []) \<and> subType Number Number
      \<and> \<not> subType (Func [(x2, Object [(''foo'', Number)])] Number) (Func [(x1, Object [])] Number)"
    by simp
  then have "\<exists>A1 A2 B1 B2. subType A2 A1 \<and> subType B1 B2
         \<and> \<not> subType (Func [(x2, A2)] B2) (Func [(x1, A1)] B1)"
    by blast
  then show ?thesis by (auto simp: list_all2_conv_all_nth)
qed

theorem subType_Func_variance_witness:
  "subType (Object [(''foo'', Number)]) (Object []) \<and> subType Number Number
   \<and> subType (Func [(''x'', Object [])] Number) (Func [(''y'', Object [(''foo'', Number)])] Number)
   \<and> \<not> subType (Func [(''y'', Object [(''foo'', Number)])] Number) (Func [(''x'', Object [])] Number)
   \<and> \<not> subType (Func [] Number) (Func [(''y'', Number)] Number)"
  using subType_Func_variance [of "Object [(''foo'', Number)]" "Object []" Number Number
      "''x''" "''y''" "[]" "[(''y'', Number)]" Number Number]
  by simp

text \<open>
  C6 (width subtyping: an \<open>Object\<close> type is a subtype of another exactly when, for
  every field of the supertype, it has a same-named field whose type is a subtype of
  the required one). With a field name listed twice in the subtype the "if" direction
  fails: \<open>{a: number, a: boolean}\<close> has a field \<open>a\<close> of type \<open>boolean\<close>, yet it is not
  a subtype of \<open>{a: boolean}\<close>, because \<open>find\<close> returns its first field \<open>a\<close>.
\<close>

theorem subType_Object_counterexample:
  "\<not> subType (Object [(''a'', Number), (''a'', Boolean)]) (Object [(''a'', Boolean)])
   \<and> (''a'', Boolean) \<in> set [(''a'', Number), (''a'', Boolean)]
   \<and> subType Boolean Boolean"
  by simp

text \<open>
  C6, as the code has it. \<open>subType\<close> on two \<open>Object\<close> types returns true exactly when,
  for every field of the supertype, the first same-named field of the subtype exists
  and its type is a subtype of the required type; when the field names of the subtype
  are unique this is: it has a same-named field whose type is a subtype of the required
  type. Extra fields are permitted, only an \<open>Object\<close> type is a subtype of an \<open>Object\<close>
  type, \<open>{foo: number, bar: boolean}\<close> is a subtype of \<open>{foo: number}\<close>, and
  \<open>{foo: number}\<close> is not a subtype of \<open>{foo: number, bar: boolean}\<close>.
\<close>

theorem subType_Object_width:
  "(subType (Object props1) (Object props2) \<longleftrightarrow>
      (\<forall>prop2 \<in> set props2. \<exists>prop1. find (\<lambda>p. fst p = fst prop2) props1 = Some prop1
          \<and> subType (snd prop1) (snd prop2)))
   \<and> (distinct (map fst props1) \<longrightarrow>
        (subType (Object props1) (Object props2) \<longleftrightarrow>
          (\<forall>prop2 \<in> set props2. \<exists>prop1 \<in> set props1. fst prop1 = fst prop2
              \<and> subType (snd prop1) (snd prop2))))
   \<and> (subType ty1 (Object props2) \<longrightarrow> (\<exists>props1. ty1 = Object props1))
   \<and> subType (Object [(''foo'', Number), (''bar'', Boolean)]) (Object [(''foo'', Number)])
   \<and> \<not> subType (Object [(''foo'', Number)]) (Object [(''foo'', Number), (''bar'', Boolean)])"
proof (intro conjI impI)
  show g: "subType (Object props1) (Object props2) \<longleftrightarrow>
      (\<forall>prop2 \<in> set props2. \<exists>prop1. find (\<lambda>p. fst p = fst prop2) props1 = Some prop1
          \<and> subType (snd prop1) (snd prop2))"
    by (auto simp: list_all_iff split: option.splits)
  assume d: "distinct (map fst props1)"
  have "(\<exists>prop1. find (\<lambda>p. fst p = fst prop2) props1 = Some prop1 \<and> subType (snd prop1) (snd prop2))
      \<longleftrightarrow> (\<exists>prop1 \<in> set props1. fst prop1 = fst prop2 \<and> subType (snd prop1) (snd prop2))"
    for prop2
  proof
    assume "\<exists>prop1. find (\<lambda>p. fst p = fst prop2) props1 = Some prop1 \<and> subType (snd prop1) (snd prop2)"
    then show "\<exists>prop1 \<in> set props1. fst prop1 = fst prop2 \<and> subType (snd prop1) (snd prop2)"
      using find_fst_SomeD by fastforce
  next
    assume "\<exists>prop1 \<in> set props1. fst prop1 = fst prop2 \<and> subType (snd prop1) (snd prop2)"
    then obtain prop1 where m: "prop1 \<in> set props1" and n: "fst prop1 = fst prop2"
      and s: "subType (snd prop1) (snd prop2)" by blast
    from d m have "find (\<lambda>q. fst q = fst prop1) props1 = Some prop1" by (rule find_distinct_fst)
    with n s show "\<exists>prop1. find (\<lambda>p. fst p = fst prop2) props1 = Some prop1 \<and> subType (snd prop1) (snd prop2)"
      by auto
  qed
  with g show "subType (Object props1) (Object props2) \<longleftrightarrow>
          (\<forall>prop2 \<in> set props2. \<exists>prop1 \<in> set props1. fst prop1 = fst prop2
              \<and> subType (snd prop1) (snd prop2))"
    by simp
next
  assume "subType ty1 (Object props2)"
  then show "\<exists>props1. ty1 = Object props1" by (cases ty1) auto
qed simp_all

theorem subType_Object_width_witness:
  "distinct (map fst [(''foo'', Number), (''bar'', Boolean)])
   \<and> subType (Object [(''foo'', Number), (''bar'', Boolean)]) (Object [(''foo'', Number)])
   \<and> find (\<lambda>p. fst p = ''foo'') [(''foo'', Number), (''bar'', Boolean)] = Some (''foo'', Number)
   \<and> subType Number Number"
  using subType_Object_width [of "[(''foo'', Number), (''bar'', Boolean)]" "[(''foo'', Number)]"
      "Object [(''foo'', Number), (''bar'', Boolean)]"]
  by simp

section \<open>Properties of the type-checking drivers\<close>

lemma bindParams_append:
  "bindParams tyEnv (ps @ qs) = bindParams (bindParams tyEnv ps) qs"
  by (simp add: bindParams_def)

lemma bindParams_notin:
  "x \<notin> fst ` set qs \<Longrightarrow> bindParams tyEnv qs x = tyEnv x"
  unfolding bindParams_def
  by (induction qs arbitrary: tyEnv) auto

lemma bindParams_last:
  "x \<notin> fst ` set qs \<Longrightarrow> bindParams tyEnv (ps @ (x, t) # qs) x = Some t"
proof -
  assume n: "x \<notin> fst ` set qs"
  have "bindParams tyEnv (ps @ (x, t) # qs) = bindParams ((bindParams tyEnv ps)(x \<mapsto> t)) qs"
    by (simp add: bindParams_def)
  with n show ?thesis by (simp add: bindParams_notin)
qed

text \<open>
  C10 (a function literal with two parameters of the same name: the body is checked
  with the name bound to the type of the last of them, and the resulting \<open>Func\<close> type
  lists every parameter, duplicates included, in the given order). In both checkers:
  after binding the parameters, a name \<open>x\<close> has the type of its last occurrence in the
  list; whenever the literal typechecks, its type is the \<open>Func\<close> of the whole given
  parameter list and of the body's type under these bindings; and the literal whose
  body is the variable \<open>x\<close> has the return type of the last parameter named \<open>x\<close>.
\<close>

theorem func_duplicate_params:
  "(x \<notin> fst ` set qs \<longrightarrow> bindParams tyEnv (ps @ (x, t) # qs) x = Some t)
   \<and> (typecheck_sub (TmFunc params body) tyEnv = Inr ty \<longrightarrow>
        (\<exists>retType. ty = Func params retType
           \<and> typecheck_sub body (bindParams tyEnv params) = Inr retType))
   \<and> (typecheck k (TmFunc rparams rbody) rtyEnv = Some (Inr rty) \<longrightarrow>
        (\<exists>retType. rty = RFunc rparams retType
           \<and> typecheck k rbody (bindParams rtyEnv rparams) = Some (Inr retType)))
   \<and> (x \<notin> fst ` set qs \<longrightarrow>
        typecheck_sub (TmFunc (ps @ (x, t) # qs) (TmVar x)) tyEnv = Inr (Func (ps @ (x, t) # qs) t))
   \<and> (x \<notin> fst ` set rqs \<longrightarrow>
        typecheck k (TmFunc (rps @ (x, rt) # rqs) (TmVar x)) rtyEnv
          = Some (Inr (RFunc (rps @ (x, rt) # rqs) rt)))"
  by (auto simp: bindParams_last split: sum.splits option.splits)

theorem func_duplicate_params_witness:
  "bindParams Map.empty [(''x'', Number), (''x'', Boolean)] ''x'' = Some Boolean
   \<and> typecheck_sub (TmFunc [(''x'', Number), (''x'', Boolean)] (TmVar ''x'')) Map.empty
       = Inr (Func [(''x'', Number), (''x'', Boolean)] Boolean)
   \<and> typecheck 0 (TmFunc [(''x'', RNumber), (''x'', RBoolean)] (TmVar ''x'')) Map.empty
       = Some (Inr (RFunc [(''x'', RNumber), (''x'', RBoolean)] RBoolean))
   \<and> typecheck_sub (TmVar ''x'') (bindParams Map.empty [(''x'', Number), (''x'', Boolean)]) = Inr Boolean
   \<and> typecheck 0 (TmVar ''x'') (bindParams Map.empty [(''x'', RNumber), (''x'', RBoolean)]) = Some (Inr RBoolean)"
  using func_duplicate_params [of "''x''" "[]" Map.empty "[(''x'', Number)]" Boolean
      "[(''x'', Number), (''x'', Boolean)]" "TmVar ''x''" "Func [(''x'', Number), (''x'', Boolean)] Boolean"
      0 "[(''x'', RNumber), (''x'', RBoolean)]" "TmVar ''x''" Map.empty
      "RFunc [(''x'', RNumber), (''x'', RBoolean)] RBoolean" "[]" "[(''x'', RNumber)]" RBoolean]
  by (simp add: bindParams_def)

text \<open>
  C7 (the rule of a recursive function definition). In the recursive-function checker
  and in the recursive-types checker: the body is checked with the parameters bound
  and then the function's name bound to \<open>Func(params, retType)\<close>; if the body's type is
  not \<open>typeEq\<close>-equal to the declared return type the result is the error
  \<open>wrong return type\<close> on the whole term; if it is, the result is that of \<open>rest\<close>
  checked with only the function's name added to the outer environment. So
  \<open>function f(x: number): number { return f(x); }; f\<close> has the type
  \<open>(x: number) => number\<close>, and a parameter is unknown in \<open>rest\<close>.
\<close>

theorem recFunc_rule:
  "(typecheck_recfunc body ((bindParams tyEnv params)(funcName \<mapsto> Func params retType)) = Inr bodyTy
      \<and> \<not> typeEq_sub retType bodyTy \<longrightarrow>
    typecheck_recfunc (TmRecFunc funcName params retType body rest) tyEnv
      = Inl (CheckError ''wrong return type'' (TmRecFunc funcName params retType body rest)))
   \<and> (typecheck_recfunc body ((bindParams tyEnv params)(funcName \<mapsto> Func params retType)) = Inr bodyTy
      \<and> typeEq_sub retType bodyTy \<longrightarrow>
    typecheck_recfunc (TmRecFunc funcName params retType body rest) tyEnv
      = typecheck_recfunc rest (tyEnv(funcName \<mapsto> Func params retType)))
   \<and> (typecheck k rbody ((bindParams rtyEnv rparams)(funcName \<mapsto> RFunc rparams rretType))
        = Some (Inr rbodyTy)
      \<and> typeEq k rretType rbodyTy = Some (Inr False) \<longrightarrow>
    typecheck k (TmRecFunc funcName rparams rretType rbody rrest) rtyEnv
      = Some (Inl (CheckError ''wrong return type'' (TmRecFunc funcName rparams rretType rbody rrest))))
   \<and> (typecheck k rbody ((bindParams rtyEnv rparams)(funcName \<mapsto> RFunc rparams rretType))
        = Some (Inr rbodyTy)
      \<and> typeEq k rretType rbodyTy = Some (Inr True) \<longrightarrow>
    typecheck k (TmRecFunc funcName rparams rretType rbody rrest) rtyEnv
      = typecheck k rrest (rtyEnv(funcName \<mapsto> RFunc rparams rretType)))
   \<and> typecheck_recfunc
        (TmRecFunc ''f'' [(''x'', Number)] Number (TmCall (TmVar ''f'') [TmVar ''x'']) (TmVar ''f''))
        Map.empty
      = Inr (Func [(''x'', Number)] Number)
   \<and> typecheck (Suc k)
        (TmRecFunc ''f'' [(''x'', RNumber)] RNumber (TmCall (TmVar ''f'') [TmVar ''x'']) (TmVar ''f''))
        Map.empty
      = Some (Inr (RFunc [(''x'', RNumber)] RNumber))
   \<and> typecheck_recfunc
        (TmRecFunc ''f'' [(''x'', Number)] Number (TmVar ''x'') (TmVar ''x'')) Map.empty
      = Inl (CheckError ''unknown variable: x'' (TmVar ''x''))
   \<and> typecheck (Suc k)
        (TmRecFunc ''f'' [(''x'', RNumber)] RNumber (TmVar ''x'') (TmVar ''x'')) Map.empty
      = Some (Inl (CheckError ''unknown variable: x'' (TmVar ''x'')))"
  by (simp add: bindParams_def typeEq_def)

theorem recFunc_rule_witness:
  "typecheck_recfunc (TmVar ''x'') ((bindParams Map.empty [(''x'', Number)])(''f'' \<mapsto> Func [(''x'', Number)] Boolean))
     = Inr Number
   \<and> \<not> typeEq_sub Boolean Number
   \<and> typecheck_recfunc (TmRecFunc ''f'' [(''x'', Number)] Boolean (TmVar ''x'') (TmVar ''f'')) Map.empty
     = Inl (CheckError ''wrong return type'' (TmRecFunc ''f'' [(''x'', Number)] Boolean (TmVar ''x'') (TmVar ''f'')))
   \<and> typecheck 1 (TmVar ''x'') ((bindParams Map.empty [(''x'', RNumber)])(''f'' \<mapsto> RFunc [(''x'', RNumber)] RBoolean))
     = Some (Inr RNumber)
   \<and> typeEq 1 RBoolean RNumber = Some (Inr False)
   \<and> typecheck 1 (TmRecFunc ''f'' [(''x'', RNumber)] RBoolean (TmVar ''x'') (TmVar ''f'')) Map.empty
     = Some (Inl (CheckError ''wrong return type''
         (TmRecFunc ''f'' [(''x'', RNumber)] RBoolean (TmVar ''x'') (TmVar ''f''))))
   \<and> typecheck_recfunc (TmVar ''x'') ((bindParams Map.empty [(''x'', Number)])(''f'' \<mapsto> Func [(''x'', Number)] Number))
     = Inr Number
   \<and> typeEq_sub Number Number
   \<and> typecheck_recfunc (TmRecFunc ''f'' [(''x'', Number)] Number (TmVar ''x'') (TmVar ''f'')) Map.empty
     = Inr (Func [(''x'', Number)] Number)
   \<and> typecheck 1 (TmVar ''x'') ((bindParams Map.empty [(''x'', RNumber)])(''f'' \<mapsto> RFunc [(''x'', RNumber)] RNumber))
     = Some (Inr RNumber)
   \<and> typeEq 1 RNumber RNumber = Some (Inr True)
   \<and> typecheck 1 (TmRecFunc ''f'' [(''x'', RNumber)] RNumber (TmVar ''x'') (TmVar ''f'')) Map.empty
     = Some (Inr (RFunc [(''x'', RNumber)] RNumber))"
  using recFunc_rule [of "TmVar ''x''" Map.empty "[(''x'', Number)]" "''f''" Boolean Number "TmVar ''f''"
      1 "TmVar ''x''" Map.empty "[(''x'', RNumber)]" RBoolean RNumber "TmVar ''f''"]
    recFunc_rule [of "TmVar ''x''" Map.empty "[(''x'', Number)]" "''f''" Number Number "TmVar ''f''"
      1 "TmVar ''x''" Map.empty "[(''x'', RNumber)]" RNumber RNumber "TmVar ''f''"]
  by (simp add: bindParams_def typeEq_def)

lemma typecheck_sub_args_ok:
  "length params = length args \<Longrightarrow>
     typecheck_sub_args args params tyEnv = Inr u \<longleftrightarrow>
       (\<forall>i < length args. \<exists>argTy. typecheck_sub (args ! i) tyEnv = Inr argTy
           \<and> subType argTy (snd (params ! i)))"
proof (induction args arbitrary: params)
  case Nil
  then show ?case by simp
next
  case (Cons arg args)
  then obtain param params' where p: "params = param # params'" and l: "length params' = length args"
    by (cases params) auto
  show ?case
    unfolding p using Cons.IH [OF l]
    by (auto simp: All_less_Suc2 split: sum.splits)
qed

lemma typecheck_sub_args_mismatch:
  "length params = length args \<Longrightarrow> i < length args \<Longrightarrow>
   (\<forall>j < i. \<exists>argTy. typecheck_sub (args ! j) tyEnv = Inr argTy \<and> subType argTy (snd (params ! j))) \<Longrightarrow>
   typecheck_sub (args ! i) tyEnv = Inr argTy \<Longrightarrow> \<not> subType argTy (snd (params ! i)) \<Longrightarrow>
   typecheck_sub_args args params tyEnv = Inl (CheckError ''parameter type mismatch'' (args ! i))"
proof (induction args arbitrary: params i)
  case Nil
  then show ?case by simp
next
  case (Cons arg args)
  then obtain param params' where p: "params = param # params'" and l: "length params' = length args"
    by (cases params) auto
  show ?case
  proof (cases i)
    case 0
    with Cons.prems p show ?thesis by simp
  next
    case (Suc i')
    from Cons.prems(3) Suc obtain a0 where a0: "typecheck_sub arg tyEnv = Inr a0"
      and s0: "subType a0 (snd param)" unfolding p by fastforce
    have "\<forall>j < i'. \<exists>argTy. typecheck_sub (args ! j) tyEnv = Inr argTy \<and> subType argTy (snd (params' ! j))"
      using Cons.prems(3) Suc unfolding p by fastforce
    moreover have "i' < length args" using Cons.prems(2) Suc by simp
    moreover have "typecheck_sub (args ! i') tyEnv = Inr argTy" using Cons.prems(4) Suc by simp
    moreover have "\<not> subType argTy (snd (params' ! i'))" using Cons.prems(5) Suc p by simp
    ultimately have "typecheck_sub_args args params' tyEnv
        = Inl (CheckError ''parameter type mismatch'' (args ! i'))"
      using Cons.IH [OF l] by blast
    with a0 s0 p Suc show ?thesis by simp
  qed
qed

lemma typecheck_sub_call_ok:
  "typecheck_sub (TmCall func args) tyEnv = Inr ty \<longleftrightarrow>
     (\<exists>params. typecheck_sub func tyEnv = Inr (Func params ty) \<and> length params = length args
        \<and> (\<forall>i < length args. \<exists>argTy. typecheck_sub (args ! i) tyEnv = Inr argTy
              \<and> subType argTy (snd (params ! i))))"
proof (cases "typecheck_sub func tyEnv")
  case (Inl e)
  then show ?thesis by simp
next
  case (Inr funcTy)
  show ?thesis
  proof (cases funcTy)
    case (Func params retType)
    show ?thesis
    proof (cases "length params = length args")
      case True
      show ?thesis
        using Inr Func True typecheck_sub_args_ok [OF True, of tyEnv "()"]
        by (auto split: sum.splits)
    next
      case False
      with Inr Func show ?thesis by auto
    qed
  qed (use Inr in auto)
qed


lemma typecheck_args_ok:
  "length params = length args \<Longrightarrow>
     (typecheck_args k args params tyEnv = Some (Inr u) \<longleftrightarrow>
       (\<forall>i < length args. \<exists>argTy. typecheck k (args ! i) tyEnv = Some (Inr argTy)
           \<and> typeEq k (snd (params ! i)) argTy = Some (Inr True)))"
proof (induction args arbitrary: params)
  case Nil
  then show ?case by simp
next
  case (Cons arg args)
  then obtain param params' where p: "params = param # params'" and l: "length params' = length args"
    by (cases params) auto
  show ?case
    unfolding p using Cons.IH [OF l]
    by (auto simp: All_less_Suc2 split: sum.splits option.splits bool.splits)
qed

lemma typecheck_args_mismatch:
  "length params = length args \<Longrightarrow> i < length args \<Longrightarrow>
   (\<forall>j < i. \<exists>argTy. typecheck k (args ! j) tyEnv = Some (Inr argTy)
       \<and> typeEq k (snd (params ! j)) argTy = Some (Inr True)) \<Longrightarrow>
   typecheck k (args ! i) tyEnv = Some (Inr argTy) \<Longrightarrow>
   typeEq k (snd (params ! i)) argTy = Some (Inr False) \<Longrightarrow>
   typecheck_args k args params tyEnv = Some (Inl (CheckError ''parameter type mismatch'' (args ! i)))"
proof (induction args arbitrary: params i)
  case Nil
  then show ?case by simp
next
  case (Cons arg args)
  then obtain param params' where p: "params = param # params'" and l: "length params' = length args"
    by (cases params) auto
  show ?case
  proof (cases i)
    case 0
    with Cons.prems p show ?thesis by simp
  next
    case (Suc i')
    from Cons.prems(3) Suc obtain a0 where a0: "typecheck k arg tyEnv = Some (Inr a0)"
      and s0: "typeEq k (snd param) a0 = Some (Inr True)" unfolding p by fastforce
    have "\<forall>j < i'. \<exists>argTy. typecheck k (args ! j) tyEnv = Some (Inr argTy)
        \<and> typeEq k (snd (params' ! j)) argTy = Some (Inr True)"
      using Cons.prems(3) Suc unfolding p by fastforce
    moreover have "i' < length args" using Cons.prems(2) Suc by simp
    moreover have "typecheck k (args ! i') tyEnv = Some (Inr argTy)" using Cons.prems(4) Suc by simp
    moreover have "typeEq k (snd (params' ! i')) argTy = Some (Inr False)"
      using Cons.prems(5) Suc p by simp
    ultimately have "typecheck_args k args params' tyEnv
        = Some (Inl (CheckError ''parameter type mismatch'' (args ! i')))"
      using Cons.IH [OF l] by blast
    with a0 s0 p Suc show ?thesis by simp
  qed
qed

lemma typecheck_call_ok:
  "typecheck k (TmCall func args) tyEnv = Some (Inr ty) \<longleftrightarrow>
     (\<exists>funcTy params. typecheck k func tyEnv = Some (Inr funcTy)
        \<and> simplifyType k funcTy = Some (RFunc params ty) \<and> length params = length args
        \<and> (\<forall>i < length args. \<exists>argTy. typecheck k (args ! i) tyEnv = Some (Inr argTy)
              \<and> typeEq k (snd (params ! i)) argTy = Some (Inr True)))"
proof (cases "typecheck k func tyEnv")
  case None
  then show ?thesis by simp
next
  case (Some v)
  show ?thesis
  proof (cases v)
    case (Inl e)
    with Some show ?thesis by simp
  next
    case (Inr funcTy0)
    show ?thesis
    proof (cases "simplifyType k funcTy0")
      case None
      with Some Inr show ?thesis by simp
    next
      case s: (Some funcTy)
      show ?thesis
      proof (cases funcTy)
        case (RFunc params retType)
        show ?thesis
        proof (cases "length params = length args")
          case True
          show ?thesis
            using Some Inr s RFunc True typecheck_args_ok [OF True, of k tyEnv "()"]
            by (auto split: sum.splits option.splits)
        next
          case False
          with Some Inr s RFunc show ?thesis by auto
        qed
      qed (use Some Inr s in auto)
    qed
  qed
qed


text \<open>
  C1 (the rule of a call: the callee's type, after unfolding, is a \<open>Func\<close>; as many
  arguments as parameters; each argument's type a subtype of the declared parameter
  type, so that a wider record is accepted; the result is the callee's return type).
  The recursive-types checker, the only one that unfolds, compares by \<open>typeEq\<close>: there
  \<open>((x: {foo: number}) => x.foo)({foo: 1, bar: true})\<close> is the error
  \<open>parameter type mismatch\<close> on the argument.
\<close>

theorem call_rec_variant_counterexample:
  "typecheck 1
     (TmCall (TmFunc [(''x'', RObject [(''foo'', RNumber)])] (TmObjectGet (TmVar ''x'') ''foo''))
        [TmObjectNew [(''foo'', TmNumber 1), (''bar'', TmTrue)]])
     Map.empty
   = Some (Inl (CheckError ''parameter type mismatch''
        (TmObjectNew [(''foo'', TmNumber 1), (''bar'', TmTrue)])))"
  by (simp add: bindParams_def typeEq_def)

text \<open>
  C1, as the code has it. In the subtyping checker (which has no recursive types and
  unfolds nothing) a call has the type \<open>ty\<close> exactly when the callee has a type
  \<open>Func(params, ty)\<close>, there are as many arguments as parameters, and every argument
  has a type that is a subtype of the declared parameter type at its index; a callee
  whose type is not a \<open>Func\<close> is the error \<open>function type expected\<close> on the callee, a
  different number of arguments is \<open>wrong number of arguments\<close> on the call, and the
  first argument whose type is not a subtype of its parameter type is
  \<open>parameter type mismatch\<close> on that argument. In the recursive-types checker the same
  holds with the callee's type unfolded by \<open>simplifyType\<close> and with
  \<open>typeEq(parameter type, argument type)\<close> in place of subtyping.
\<close>

theorem call_rule:
  "(typecheck_sub (TmCall func args) tyEnv = Inr ty \<longleftrightarrow>
      (\<exists>params. typecheck_sub func tyEnv = Inr (Func params ty) \<and> length params = length args
         \<and> (\<forall>i < length args. \<exists>argTy. typecheck_sub (args ! i) tyEnv = Inr argTy
               \<and> subType argTy (snd (params ! i)))))
   \<and> (typecheck_sub func tyEnv = Inr funcTy \<and> (\<forall>ps r. funcTy \<noteq> Func ps r) \<longrightarrow>
        typecheck_sub (TmCall func args) tyEnv = Inl (CheckError ''function type expected'' func))
   \<and> (typecheck_sub func tyEnv = Inr (Func params retType) \<and> length params \<noteq> length args \<longrightarrow>
        typecheck_sub (TmCall func args) tyEnv
          = Inl (CheckError ''wrong number of arguments'' (TmCall func args)))
   \<and> (typecheck_sub func tyEnv = Inr (Func params retType) \<and> length params = length args
        \<and> i < length args
        \<and> (\<forall>j < i. \<exists>aTy. typecheck_sub (args ! j) tyEnv = Inr aTy \<and> subType aTy (snd (params ! j)))
        \<and> typecheck_sub (args ! i) tyEnv = Inr argTy \<and> \<not> subType argTy (snd (params ! i)) \<longrightarrow>
        typecheck_sub (TmCall func args) tyEnv
          = Inl (CheckError ''parameter type mismatch'' (args ! i)))
   \<and> (typecheck k (TmCall rfunc rargs) rtyEnv = Some (Inr rty) \<longleftrightarrow>
      (\<exists>funcTy0 params. typecheck k rfunc rtyEnv = Some (Inr funcTy0)
         \<and> simplifyType k funcTy0 = Some (RFunc params rty) \<and> length params = length rargs
         \<and> (\<forall>i < length rargs. \<exists>argTy. typecheck k (rargs ! i) rtyEnv = Some (Inr argTy)
               \<and> typeEq k (snd (params ! i)) argTy = Some (Inr True))))
   \<and> (typecheck k rfunc rtyEnv = Some (Inr rfuncTy0) \<and> simplifyType k rfuncTy0 = Some rfuncTy
        \<and> (\<forall>ps r. rfuncTy \<noteq> RFunc ps r) \<longrightarrow>
        typecheck k (TmCall rfunc rargs) rtyEnv
          = Some (Inl (CheckError ''function type expected'' rfunc)))
   \<and> (typecheck k rfunc rtyEnv = Some (Inr rfuncTy0)
        \<and> simplifyType k rfuncTy0 = Some (RFunc rparams rretType)
        \<and> length rparams \<noteq> length rargs \<longrightarrow>
        typecheck k (TmCall rfunc rargs) rtyEnv
          = Some (Inl (CheckError ''wrong number of arguments'' (TmCall rfunc rargs))))
   \<and> (typecheck k rfunc rtyEnv = Some (Inr rfuncTy0)
        \<and> simplifyType k rfuncTy0 = Some (RFunc rparams rretType)
        \<and> length rparams = length rargs \<and> ri < length rargs
        \<and> (\<forall>j < ri. \<exists>aTy. typecheck k (rargs ! j) rtyEnv = Some (Inr aTy)
              \<and> typeEq k (snd (rparams ! j)) aTy = Some (Inr True))
        \<and> typecheck k (rargs ! ri) rtyEnv = Some (Inr rargTy)
        \<and> typeEq k (snd (rparams ! ri)) rargTy = Some (Inr False) \<longrightarrow>
        typecheck k (TmCall rfunc rargs) rtyEnv
          = Some (Inl (CheckError ''parameter type mismatch'' (rargs ! ri))))"
proof (intro conjI impI)
  show "typecheck_sub (TmCall func args) tyEnv = Inr ty \<longleftrightarrow>
      (\<exists>params. typecheck_sub func tyEnv = Inr (Func params ty) \<and> length params = length args
         \<and> (\<forall>i < length args. \<exists>argTy. typecheck_sub (args ! i) tyEnv = Inr argTy
               \<and> subType argTy (snd (params ! i))))"
    by (rule typecheck_sub_call_ok)
next
  assume "typecheck_sub func tyEnv = Inr funcTy \<and> (\<forall>ps r. funcTy \<noteq> Func ps r)"
  then show "typecheck_sub (TmCall func args) tyEnv = Inl (CheckError ''function type expected'' func)"
    by (cases funcTy) auto
next
  assume "typecheck_sub func tyEnv = Inr (Func params retType) \<and> length params \<noteq> length args"
  then show "typecheck_sub (TmCall func args) tyEnv
          = Inl (CheckError ''wrong number of arguments'' (TmCall func args))"
    by simp
next
  assume a: "typecheck_sub func tyEnv = Inr (Func params retType) \<and> length params = length args
        \<and> i < length args
        \<and> (\<forall>j < i. \<exists>aTy. typecheck_sub (args ! j) tyEnv = Inr aTy \<and> subType aTy (snd (params ! j)))
        \<and> typecheck_sub (args ! i) tyEnv = Inr argTy \<and> \<not> subType argTy (snd (params ! i))"
  then have "typecheck_sub_args args params tyEnv
      = Inl (CheckError ''parameter type mismatch'' (args ! i))"
    using typecheck_sub_args_mismatch [of params args i tyEnv argTy] by blast
  with a show "typecheck_sub (TmCall func args) tyEnv
          = Inl (CheckError ''parameter type mismatch'' (args ! i))"
    by simp
next
  show "typecheck k (TmCall rfunc rargs) rtyEnv = Some (Inr rty) \<longleftrightarrow>
      (\<exists>funcTy0 params. typecheck k rfunc rtyEnv = Some (Inr funcTy0)
         \<and> simplifyType k funcTy0 = Some (RFunc params rty) \<and> length params = length rargs
         \<and> (\<forall>i < length rargs. \<exists>argTy. typecheck k (rargs ! i) rtyEnv = Some (Inr argTy)
               \<and> typeEq k (snd (params ! i)) argTy = Some (Inr True)))"
    by (rule typecheck_call_ok)
next
  assume "typecheck k rfunc rtyEnv = Some (Inr rfuncTy0) \<and> simplifyType k rfuncTy0 = Some rfuncTy
        \<and> (\<forall>ps r. rfuncTy \<noteq> RFunc ps r)"
  then show "typecheck k (TmCall rfunc rargs) rtyEnv
          = Some (Inl (CheckError ''function type expected'' rfunc))"
    by (cases rfuncTy) auto
next
  assume "typecheck k rfunc rtyEnv = Some (Inr rfuncTy0)
        \<and> simplifyType k rfuncTy0 = Some (RFunc rparams rretType)
        \<and> length rparams \<noteq> length rargs"
  then show "typecheck k (TmCall rfunc rargs) rtyEnv
          = Some (Inl (CheckError ''wrong number of arguments'' (TmCall rfunc rargs)))"
    by simp
next
  assume a: "typecheck k rfunc rtyEnv = Some (Inr rfuncTy0)
        \<and> simplifyType k rfuncTy0 = Some (RFunc rparams rretType)
        \<and> length rparams = length rargs \<and> ri < length rargs
        \<and> (\<forall>j < ri. \<exists>aTy. typecheck k (rargs ! j) rtyEnv = Some (Inr aTy)
              \<and> typeEq k (snd (rparams ! j)) aTy = Some (Inr True))
        \<and> typecheck k (rargs ! ri) rtyEnv = Some (Inr rargTy)
        \<and> typeEq k (snd (rparams ! ri)) rargTy = Some (Inr False)"
  then have "typecheck_args k rargs rparams rtyEnv
      = Some (Inl (CheckError ''parameter type mismatch'' (rargs ! ri)))"
    using typecheck_args_mismatch [of rparams rargs ri k rtyEnv rargTy] by blast
  with a show "typecheck k (TmCall rfunc rargs) rtyEnv
          = Some (Inl (CheckError ''parameter type mismatch'' (rargs ! ri)))"
    by simp
qed

theorem call_rule_witness:
  "typecheck_sub
     (TmCall (TmFunc [(''x'', Object [(''foo'', Number)])] (TmObjectGet (TmVar ''x'') ''foo''))
        [TmObjectNew [(''foo'', TmNumber 1), (''bar'', TmTrue)]])
     Map.empty = Inr Number
   \<and> typecheck_sub (TmCall (TmNumber 1) [TmTrue]) Map.empty
       = Inl (CheckError ''function type expected'' (TmNumber 1))
   \<and> typecheck_sub (TmCall (TmFunc [(''x'', Number)] (TmVar ''x'')) []) Map.empty
       = Inl (CheckError ''wrong number of arguments'' (TmCall (TmFunc [(''x'', Number)] (TmVar ''x'')) []))
   \<and> typecheck_sub (TmCall (TmFunc [(''x'', Number)] (TmVar ''x'')) [TmTrue]) Map.empty
       = Inl (CheckError ''parameter type mismatch'' TmTrue)
   \<and> typecheck 1 (TmCall (TmFunc [(''x'', RNumber)] (TmVar ''x'')) [TmNumber 1]) Map.empty
       = Some (Inr RNumber)
   \<and> typecheck 1 (TmCall (TmNumber 1) [TmTrue]) Map.empty
       = Some (Inl (CheckError ''function type expected'' (TmNumber 1)))
   \<and> typecheck 1 (TmCall (TmFunc [(''x'', RNumber)] (TmVar ''x'')) []) Map.empty
       = Some (Inl (CheckError ''wrong number of arguments''
           (TmCall (TmFunc [(''x'', RNumber)] (TmVar ''x'')) [])))
   \<and> typecheck 1 (TmCall (TmFunc [(''x'', RNumber)] (TmVar ''x'')) [TmTrue]) Map.empty
       = Some (Inl (CheckError ''parameter type mismatch'' TmTrue))"
  using
    call_rule [where func = "TmFunc [(''x'', Object [(''foo'', Number)])] (TmObjectGet (TmVar ''x'') ''foo'')"
      and args = "[TmObjectNew [(''foo'', TmNumber 1), (''bar'', TmTrue)]]" and tyEnv = Map.empty
      and ty = Number and funcTy = Boolean and params = "[]" and retType = Number and i = 0
      and argTy = Boolean and k = 1 and rfunc = "TmFunc [(''x'', RNumber)] (TmVar ''x'')"
      and rargs = "[TmNumber 1]" and rtyEnv = Map.empty and rty = RNumber and rfuncTy0 = RNumber
      and rfuncTy = RNumber and rparams = "[]" and rretType = RNumber and ri = 0 and rargTy = RNumber]
    call_rule [where func = "TmNumber 1" and args = "[TmTrue]" and tyEnv = Map.empty
      and ty = Number and funcTy = Number and params = "[]" and retType = Number and i = 0
      and argTy = Boolean and k = 1 and rfunc = "TmNumber 1"
      and rargs = "[TmTrue]" and rtyEnv = Map.empty and rty = RNumber and rfuncTy0 = RNumber
      and rfuncTy = RNumber and rparams = "[]" and rretType = RNumber and ri = 0 and rargTy = RNumber]
    call_rule [where func = "TmFunc [(''x'', Number)] (TmVar ''x'')" and args = "[]" and tyEnv = Map.empty
      and ty = Number and funcTy = Number and params = "[(''x'', Number)]" and retType = Number and i = 0
      and argTy = Boolean and k = 1 and rfunc = "TmFunc [(''x'', RNumber)] (TmVar ''x'')"
      and rargs = "[]" and rtyEnv = Map.empty and rty = RNumber
      and rfuncTy0 = "RFunc [(''x'', RNumber)] RNumber"
      and rfuncTy = RNumber and rparams = "[(''x'', RNumber)]" and rretType = RNumber and ri = 0
      and rargTy = RNumber]
    call_rule [where func = "TmFunc [(''x'', Number)] (TmVar ''x'')" and args = "[TmTrue]"
      and tyEnv = Map.empty
      and ty = Number and funcTy = Number and params = "[(''x'', Number)]" and retType = Number and i = 0
      and argTy = Boolean and k = 1 and rfunc = "TmFunc [(''x'', RNumber)] (TmVar ''x'')"
      and rargs = "[TmTrue]" and rtyEnv = Map.empty and rty = RNumber
      and rfuncTy0 = "RFunc [(''x'', RNumber)] RNumber"
      and rfuncTy = RNumber and rparams = "[(''x'', RNumber)]" and rretType = RNumber and ri = 0
      and rargTy = RBoolean]
  by (simp add: bindParams_def typeEq_def)

end
